theory Spec2Isabelle
  imports Main "HOL-Library.AList"
begin

section \<open>JavaScript values and strings\<close>

text \<open>
  The values the value codec of \<^verbatim>\<open>PostgresDriver\<close> handles: \<^verbatim>\<open>null\<close>,
  \<^verbatim>\<open>undefined\<close>, booleans, integral numbers and \<^verbatim>\<open>NaN\<close>, strings, arrays and plain
  objects.
  A string is a list of 8-bit characters.  An object is the list of its own enumerable
  properties in creation order, with pairwise distinct keys.
\<close>

datatype jsval =
    JNull
  | JUndefined
  | JBool bool
  | JNum int
  | JNaN
  | JStr string
  | JArr "jsval list"
  | JObj "(string \<times> jsval) list"

datatype error = TypeError | TypeORMError string

abbreviation dquote :: char where "dquote \<equiv> CHR 0x22"
abbreviation bslash :: char where "bslash \<equiv> CHR 0x5C"

text \<open>\<^verbatim>\<open>Array.prototype.join\<close> on strings.\<close>

fun join_with :: "string \<Rightarrow> string list \<Rightarrow> string" where
  "join_with sep [] = []"
| "join_with sep [x] = x"
| "join_with sep (x # y # ys) = x @ sep @ join_with sep (y # ys)"

text \<open>\<^verbatim>\<open>String.prototype.split\<close> with a separator of one character.\<close>

fun split_on :: "char \<Rightarrow> string \<Rightarrow> string list" where
  "split_on d [] = [[]]"
| "split_on d (c # cs) =
     (if c = d then [] # split_on d cs
      else (case split_on d cs of p # ps \<Rightarrow> (c # p) # ps | [] \<Rightarrow> [[c]]))"

text \<open>Decimal digits of a natural number, as \<^verbatim>\<open>Number.prototype.toString\<close> prints them.\<close>

fun digits :: "nat \<Rightarrow> string" where
  "digits n =
     (if n < 10 then [char_of (48 + n)]
      else digits (n div 10) @ [char_of (48 + n mod 10)])"

declare digits.simps [simp del]

definition is_digit :: "char \<Rightarrow> bool" where
  "is_digit c \<longleftrightarrow> (48::nat) \<le> of_char c \<and> of_char c \<le> (57::nat)"

text \<open>The characters \<^verbatim>\<open>\s\<close> matches, among the 8-bit ones.\<close>

definition is_space :: "char \<Rightarrow> bool" where
  "is_space c \<longleftrightarrow> c \<in> set [CHR 0x09, CHR 0x0A, CHR 0x0B, CHR 0x0C, CHR 0x0D, CHR 0x20, CHR 0xA0]"

text \<open>The characters the regular-expression dot does not match, among the 8-bit ones.\<close>

definition line_terminator :: "char \<Rightarrow> bool" where
  "line_terminator c \<longleftrightarrow> c = CHR 0x0A \<or> c = CHR 0x0D"

text \<open>
  \<^verbatim>\<open>ToString\<close>, as a template literal \<^verbatim>\<open>`${value}`\<close> and \<^verbatim>\<open>"" + value\<close> apply it.
\<close>

fun js_to_string :: "jsval \<Rightarrow> string" where
  "js_to_string JNull = ''null''"
| "js_to_string JUndefined = ''undefined''"
| "js_to_string (JBool b) = (if b then ''true'' else ''false'')"
| "js_to_string (JNum n) = (if n < 0 then CHR ''-'' # digits (nat (- n)) else digits (nat n))"
| "js_to_string JNaN = ''NaN''"
| "js_to_string (JStr s) = s"
| "js_to_string (JArr xs) =
     join_with '',''
       (map (\<lambda>x. if x = JNull \<or> x = JUndefined then [] else js_to_string x) xs)"
| "js_to_string (JObj kvs) = ''[object Object]''"

text \<open>\<^verbatim>\<open>Array.prototype.join(",")\<close> on an array of values.\<close>

definition array_join :: "jsval list \<Rightarrow> string" where
  "array_join xs = js_to_string (JArr xs)"

text \<open>Truthiness, as a condition \<^verbatim>\<open>value ? a : b\<close> reads it.\<close>

fun truthy :: "jsval \<Rightarrow> bool" where
  "truthy JNull = False"
| "truthy JUndefined = False"
| "truthy (JBool b) = b"
| "truthy (JNum n) = (n \<noteq> 0)"
| "truthy JNaN = False"
| "truthy (JStr s) = (s \<noteq> [])"
| "truthy (JArr xs) = True"
| "truthy (JObj kvs) = True"

subsection \<open>Own properties of a value\<close>

text \<open>
  \<^verbatim>\<open>Object.keys\<close> lists the keys that are array indices (canonical decimal numerals
  below \<open>2^32 - 1 = 4294967295\<close>) first, in ascending numeric order, and then the other keys in
  creation order.
\<close>

definition nat_of_digits :: "string \<Rightarrow> nat" where
  "nat_of_digits s = foldl (\<lambda>n c. 10 * n + (of_char c - 48)) 0 s"

definition is_array_index :: "string \<Rightarrow> bool" where
  "is_array_index s \<longleftrightarrow>
     s \<noteq> [] \<and> list_all is_digit s \<and> (s = ''0'' \<or> hd s \<noteq> CHR ''0'')
     \<and> nat_of_digits s < 4294967295"

definition object_keys :: "(string \<times> jsval) list \<Rightarrow> string list" where
  "object_keys kvs =
     sort_key nat_of_digits (filter is_array_index (map fst kvs))
     @ filter (\<lambda>k. \<not> is_array_index k) (map fst kvs)"

definition obj_get :: "(string \<times> jsval) list \<Rightarrow> string \<Rightarrow> jsval" where
  "obj_get kvs k = (case map_of kvs k of Some v \<Rightarrow> v | None \<Rightarrow> JUndefined)"

text \<open>
  The pairs \<^verbatim>\<open>(key, value[key])\<close> for \<^verbatim>\<open>key\<close> in \<^verbatim>\<open>Object.keys(value)\<close>: an
  array has its indices as keys, a boolean or number has no own key.
\<close>

fun own_entries :: "jsval \<Rightarrow> (string \<times> jsval) list" where
  "own_entries (JObj kvs) = map (\<lambda>k. (k, obj_get kvs k)) (object_keys kvs)"
| "own_entries (JArr xs) = zip (map digits [0..<length xs]) xs"
| "own_entries v = []"


section \<open>Column metadata as the value codec reads it\<close>

text \<open>
  \<^verbatim>\<open>ColumnMetadata.type\<close> is a constructor (\<^verbatim>\<open>Boolean\<close>, \<^verbatim>\<open>Date\<close>, \<^verbatim>\<open>Number\<close>,
  \<^verbatim>\<open>String\<close>) or the name of a database type.
\<close>

datatype column_type = TBoolean | TDate | TNumber | TString | TNamed string

text \<open>
  A user transformer: the pair of functions \<^verbatim>\<open>to\<close> (entity value to database value) and
  \<^verbatim>\<open>from\<close> (database value to entity value).  A column declares one transformer or an
  array of them.
\<close>

datatype value_transformer =
  ValueTransformer (transform_to: "jsval \<Rightarrow> jsval") (transform_from: "jsval \<Rightarrow> jsval")

datatype transformer_decl = Single value_transformer | Chain "value_transformer list"

record column =
  ctype :: column_type
  isArray :: bool
  hstoreType :: "string option"
  enum :: "jsval list option"
  transformer :: "transformer_decl option"

text \<open>
  Modelled from the spec: \<^verbatim>\<open>ApplyValueTransformers\<close> (\<^verbatim>\<open>util/ApplyValueTransformers\<close>) is
  not among the sources.  The entity documentation says of a column's transformer:
  an array of transformers is applied in natural order when writing, and in reverse order
  when reading.
\<close>

definition transformTo :: "transformer_decl \<Rightarrow> jsval \<Rightarrow> jsval" where
  "transformTo t v =
     (case t of Single f \<Rightarrow> transform_to f v | Chain fs \<Rightarrow> fold transform_to fs v)"

definition transformFrom :: "transformer_decl \<Rightarrow> jsval \<Rightarrow> jsval" where
  "transformFrom t v =
     (case t of Single f \<Rightarrow> transform_from f v | Chain fs \<Rightarrow> fold transform_from (rev fs) v)"

text \<open>
  The functions the codec calls that are not among the sources (\<^verbatim>\<open>DateUtils\<close>), and the
  built-in conversions \<^verbatim>\<open>JSON.stringify\<close>, \<^verbatim>\<open>Number\<close>, \<^verbatim>\<open>isNaN(+v)\<close> and
  \<^verbatim>\<open>parseInt\<close>, are parameters of the model.
\<close>

record externals =
  mixedDateToDateString :: "jsval \<Rightarrow> error + jsval"
  mixedDateToTimeString :: "jsval \<Rightarrow> error + jsval"
  mixedDateToDate :: "jsval \<Rightarrow> error + jsval"
  mixedTimeToString :: "jsval \<Rightarrow> error + jsval"
  normalizeHydratedDate :: "jsval \<Rightarrow> error + jsval"
  simpleArrayToString :: "jsval \<Rightarrow> error + jsval"
  stringToSimpleArray :: "jsval \<Rightarrow> error + jsval"
  simpleJsonToString :: "jsval \<Rightarrow> error + jsval"
  stringToSimpleJson :: "jsval \<Rightarrow> error + jsval"
  JSON_stringify :: "jsval \<Rightarrow> error + jsval"
  js_Number :: "string \<Rightarrow> jsval"
  plus_isNaN :: "jsval \<Rightarrow> bool"
  js_parseInt :: "jsval \<Rightarrow> jsval"

definition spatialTypes :: "column_type list" where
  "spatialTypes = [TNamed ''geometry'', TNamed ''geography'']"

section \<open>Encoding: preparePersistentValue\<close>

text \<open>
  \<^verbatim>\<open>`${value}`.replace(/(?=["\\])/g, "\\")\<close>: a backslash is inserted at every
  position that a double quote or a backslash follows.
\<close>

fun hstore_escape :: "string \<Rightarrow> string" where
  "hstore_escape [] = []"
| "hstore_escape (c # cs) =
     (if c = dquote \<or> c = bslash then bslash # c # hstore_escape cs
      else c # hstore_escape cs)"

definition quoteString :: "jsval \<Rightarrow> string" where
  "quoteString v =
     (if v = JNull \<or> v = JUndefined then ''NULL''
      else [dquote] @ hstore_escape (js_to_string v) @ [dquote])"

text \<open>
  \<^verbatim>\<open>(key) => quoteString(key) + "=>" + quoteString(value[key])\<close>, on the pair of a key
  and \<^verbatim>\<open>value[key]\<close>.
\<close>

definition hstore_pair :: "string \<times> jsval \<Rightarrow> string" where
  "hstore_pair e = (case e of (key, x) \<Rightarrow> quoteString (JStr key) @ ''=>'' @ quoteString x)"


text \<open>\<^verbatim>\<open>.replace(/[\s]+/g, "_")\<close>: every maximal run of white space becomes one underscore
  (written at the last character of the run).\<close>

fun replace_spaces :: "string \<Rightarrow> string" where
  "replace_spaces [] = []"
| "replace_spaces (c # cs) =
     (if is_space c then
        (case cs of
           d # ds \<Rightarrow> if is_space d then replace_spaces cs else CHR ''_'' # replace_spaces cs
         | [] \<Rightarrow> ''_'')
      else c # replace_spaces cs)"

text \<open>One cube of a cube array: \<^verbatim>\<open>`"(${cube.join(",")})"`\<close>.\<close>

fun cube_literal :: "jsval \<Rightarrow> error + string" where
  "cube_literal (JArr xs) = Inr ([dquote] @ ''('' @ array_join xs @ '')'' @ [dquote])"
| "cube_literal v = Inl TypeError"

fun sequence_results :: "(error + 'a) list \<Rightarrow> error + 'a list" where
  "sequence_results [] = Inr []"
| "sequence_results (r # rs) =
     (case r of
        Inl e \<Rightarrow> Inl e
      | Inr x \<Rightarrow> (case sequence_results rs of Inl e \<Rightarrow> Inl e | Inr xs \<Rightarrow> Inr (x # xs)))"

definition preparePersistentValue :: "externals \<Rightarrow> jsval \<Rightarrow> column \<Rightarrow> error + jsval" where
  "preparePersistentValue ext value0 columnMetadata =
     (let v = (case transformer columnMetadata of
                     Some t \<Rightarrow> transformTo t value0
                   | None \<Rightarrow> value0)
      in
      if v = JNull \<or> v = JUndefined then Inr v
      else if ctype columnMetadata = TBoolean then
        Inr (JNum (if v = JBool True then 1 else 0))
      else if ctype columnMetadata = TNamed ''date'' then mixedDateToDateString ext v
      else if ctype columnMetadata = TNamed ''time'' then mixedDateToTimeString ext v
      else if ctype columnMetadata = TNamed ''datetime''
            \<or> ctype columnMetadata = TDate
            \<or> ctype columnMetadata = TNamed ''timestamp''
            \<or> ctype columnMetadata = TNamed ''timestamp with time zone''
            \<or> ctype columnMetadata = TNamed ''timestamp without time zone'' then
        mixedDateToDate ext v
      else if ctype columnMetadata \<in> set ([TNamed ''json'', TNamed ''jsonb''] @ spatialTypes) then
        JSON_stringify ext v
      else if ctype columnMetadata = TNamed ''hstore'' then
        (case v of
           JStr s \<Rightarrow> Inr (JStr s)
         | _ \<Rightarrow>
             Inr (JStr (join_with '','' (map hstore_pair (own_entries v)))))
      else if ctype columnMetadata = TNamed ''simple-array'' then simpleArrayToString ext v
      else if ctype columnMetadata = TNamed ''simple-json'' then simpleJsonToString ext v
      else if ctype columnMetadata = TNamed ''cube'' then
        (if isArray columnMetadata then
           (case v of
              JArr cubes \<Rightarrow>
                (case sequence_results (map cube_literal cubes) of
                   Inl e \<Rightarrow> Inl e
                 | Inr ls \<Rightarrow> Inr (JStr (''{'' @ join_with '','' ls @ ''}'')))
            | _ \<Rightarrow> Inl TypeError)
         else
           (case v of
              JArr xs \<Rightarrow> Inr (JStr (''('' @ array_join xs @ '')''))
            | _ \<Rightarrow> Inl TypeError))
      else if ctype columnMetadata = TNamed ''ltree'' then
        (case v of
           JStr s \<Rightarrow>
             Inr (JStr (replace_spaces
               (join_with ''.'' (filter (\<lambda>p. p \<noteq> []) (split_on CHR ''.'' s)))))
         | _ \<Rightarrow> Inl TypeError)
      else if (ctype columnMetadata = TNamed ''enum''
               \<or> ctype columnMetadata = TNamed ''simple-enum'')
              \<and> \<not> isArray columnMetadata then
        Inr (JStr (js_to_string v))
      else Inr v)"


section \<open>Decoding: prepareHydratedValue\<close>

text \<open>
  A global regular expression is tried at every position from left to right; after a
  match the search goes on where the match ended.  \<open>m s\<close> is the match of the
  expression at the start of \<open>s\<close>: what the match yields and the rest of the string
  after it.  None of the expressions below matches the empty string.
\<close>

function scan_all :: "(string \<Rightarrow> ('a \<times> string) option) \<Rightarrow> string \<Rightarrow> 'a list" where
  "scan_all m s =
     (case s of
        [] \<Rightarrow> []
      | c # cs \<Rightarrow>
          (case m s of
             Some (x, rest) \<Rightarrow>
               if length rest < length s then x # scan_all m rest else x # scan_all m cs
           | None \<Rightarrow> scan_all m cs))"
  by pat_completeness auto
termination
  by (relation "measure (\<lambda>(m, s). length s)") auto

declare scan_all.simps [simp del]

text \<open>The literal \<open>p\<close> at the start of a string: the rest after it.\<close>

fun expect :: "string \<Rightarrow> string \<Rightarrow> string option" where
  "expect [] s = Some s"
| "expect (p # ps) [] = None"
| "expect (p # ps) (c # cs) = (if p = c then expect ps cs else None)"

text \<open>
  \<^verbatim>\<open>[^"\\]*(?:\\.[^"\\]*)*\<close>: the longest run of characters other than a double quote
  and a backslash, and of backslashes each followed by a character the dot matches.  A
  double quote must follow in the expression, and no shorter run is followed by one, so
  the longest run is the only one that can match.
\<close>

fun quoted_body :: "string \<Rightarrow> string \<times> string" where
  "quoted_body [] = ([], [])"
| "quoted_body [c] = (if c = dquote \<or> c = bslash then ([], [c]) else ([c], []))"
| "quoted_body (c # d # cs) =
     (if c = dquote then ([], c # d # cs)
      else if c = bslash then
        (if line_terminator d then ([], c # d # cs)
         else (case quoted_body cs of (b, r) \<Rightarrow> (c # d # b, r)))
      else (case quoted_body (d # cs) of (b, r) \<Rightarrow> (c # b, r)))"

text \<open>\<^verbatim>\<open>"([^"\\]*(?:\\.[^"\\]*)*)"\<close>\<close>

definition quoted :: "string \<Rightarrow> (string \<times> string) option" where
  "quoted s =
     (case expect [dquote] s of
        None \<Rightarrow> None
      | Some s1 \<Rightarrow>
          (case quoted_body s1 of
             (b, s2) \<Rightarrow>
               (case expect [dquote] s2 of None \<Rightarrow> None | Some s3 \<Rightarrow> Some (b, s3))))"

text \<open>\<^verbatim>\<open>(?:,|$)\<close>\<close>

definition end_of_pair :: "string \<Rightarrow> string option" where
  "end_of_pair s = (case s of [] \<Rightarrow> Some [] | c # cs \<Rightarrow> if c = CHR '','' then Some cs else None)"

text \<open>
  \<^verbatim>\<open>/"([^"\\]*(?:\\.[^"\\]*)*)"=>(?:(NULL)|"([^"\\]*(?:\\.[^"\\]*)*)")(?:,|$)/\<close> at the
  start of a string: the key group, the string-value group (\<open>None\<close> when the
  \<^verbatim>\<open>NULL\<close> group matched) and the rest.
\<close>

definition match_pair :: "string \<Rightarrow> ((string \<times> string option) \<times> string) option" where
  "match_pair s =
     (case quoted s of
        None \<Rightarrow> None
      | Some (key, s1) \<Rightarrow>
          (case expect ''=>'' s1 of
             None \<Rightarrow> None
           | Some s2 \<Rightarrow>
               (case (case expect ''NULL'' s2 of None \<Rightarrow> None | Some s3 \<Rightarrow> end_of_pair s3) of
                  Some rest \<Rightarrow> Some ((key, None), rest)
                | None \<Rightarrow>
                    (case quoted s2 of
                       None \<Rightarrow> None
                     | Some (val, s3) \<Rightarrow>
                         (case end_of_pair s3 of
                            None \<Rightarrow> None
                          | Some rest \<Rightarrow> Some ((key, Some val), rest))))))"

text \<open>\<^verbatim>\<open>str.replace(/\\./g, (m) => m[1])\<close>\<close>

fun unescapeString :: "string \<Rightarrow> string" where
  "unescapeString [] = []"
| "unescapeString [c] = [c]"
| "unescapeString (c # d # cs) =
     (if c = bslash \<and> \<not> line_terminator d then d # unescapeString cs
      else c # unescapeString (d # cs))"

text \<open>
  \<^verbatim>\<open>object[key] = value\<close> on the object the decoder fills, which starts as \<^verbatim>\<open>{}\<close>:
  its own properties, and whether its prototype has been set to \<^verbatim>\<open>null\<close>.  While the
  object inherits from \<^verbatim>\<open>Object.prototype\<close>, assigning to the key \<^verbatim>\<open>__proto__\<close> runs
  the inherited setter, which creates no property: it sets the prototype when the value is
  \<^verbatim>\<open>null\<close> and ignores a string.  Every other assignment creates or overwrites an own
  property.
\<close>

definition assign_property ::
  "(string \<times> jsval) list \<times> bool \<Rightarrow> string \<Rightarrow> jsval \<Rightarrow> (string \<times> jsval) list \<times> bool" where
  "assign_property obj k v =
     (case obj of
        (props, proto_null) \<Rightarrow>
          if k = ''__proto__'' \<and> \<not> proto_null then (props, v = JNull)
          else (AList.update k v props, proto_null))"

text \<open>The callback of the hstore decoder, run on every match in turn.\<close>

definition hstore_assign ::
  "(string \<times> jsval) list \<times> bool \<Rightarrow> string \<times> string option \<Rightarrow> (string \<times> jsval) list \<times> bool" where
  "hstore_assign obj m =
     (case m of
        (key, stringValue) \<Rightarrow>
          assign_property obj (unescapeString key)
            (case stringValue of None \<Rightarrow> JNull | Some sv \<Rightarrow> JStr (unescapeString sv)))"

definition hstore_to_object :: "string \<Rightarrow> jsval" where
  "hstore_to_object s = JObj (fst (foldl hstore_assign ([], False) (scan_all match_pair s)))"

text \<open>
  \<^verbatim>\<open>/(?:"((?:[\d\s.,])*)")|(?:(NULL))/\<close> at the start of a string: the cube group
  (\<open>None\<close> when \<^verbatim>\<open>NULL\<close> matched) and the rest.
\<close>

definition cube_char :: "char \<Rightarrow> bool" where
  "cube_char c \<longleftrightarrow> is_digit c \<or> is_space c \<or> c = CHR ''.'' \<or> c = CHR '',''"

definition match_cube :: "string \<Rightarrow> (string option \<times> string) option" where
  "match_cube s =
     (case (case expect [dquote] s of
              None \<Rightarrow> None
            | Some s1 \<Rightarrow>
                (case expect [dquote] (dropWhile cube_char s1) of
                   None \<Rightarrow> None
                 | Some s2 \<Rightarrow> Some (Some (takeWhile cube_char s1), s2))) of
        Some r \<Rightarrow> Some r
      | None \<Rightarrow> (case expect ''NULL'' s of None \<Rightarrow> None | Some s1 \<Rightarrow> Some (None, s1)))"

text \<open>\<^verbatim>\<open>str.split(",").filter(Boolean).map(Number)\<close>\<close>

definition cube_numbers :: "externals \<Rightarrow> string \<Rightarrow> jsval" where
  "cube_numbers ext s = JArr (map (js_Number ext) (filter (\<lambda>p. p \<noteq> []) (split_on CHR '','' s)))"

text \<open>\<^verbatim>\<open>val.replace(/\\(\\|")/g, "$1")\<close>\<close>

fun enum_unescape :: "string \<Rightarrow> string" where
  "enum_unescape [] = []"
| "enum_unescape [c] = [c]"
| "enum_unescape (c # d # cs) =
     (if c = bslash \<and> (d = bslash \<or> d = dquote) then d # enum_unescape cs
      else c # enum_unescape (d # cs))"

text \<open>One element of an enum array literal: the surrounding quotes and the escapes removed.\<close>

definition enum_element :: "string \<Rightarrow> string" where
  "enum_element val =
     enum_unescape
       (if val \<noteq> [] \<and> hd val = dquote \<and> last val = dquote then butlast (tl val) else val)"

text \<open>
  \<^verbatim>\<open>!isNaN(+v) && columnMetadata.enum!.indexOf(parseInt(v)) >= 0 ? parseInt(v) : v\<close>;
  \<^verbatim>\<open>indexOf\<close> never finds \<^verbatim>\<open>NaN\<close>, and fails on a column with no \<^verbatim>\<open>enum\<close>.
\<close>

definition enum_coerce :: "externals \<Rightarrow> column \<Rightarrow> jsval \<Rightarrow> error + jsval" where
  "enum_coerce ext columnMetadata v =
     (if \<not> plus_isNaN ext v then
        (case enum columnMetadata of
           None \<Rightarrow> Inl TypeError
         | Some es \<Rightarrow>
             Inr (if js_parseInt ext v \<in> set es \<and> js_parseInt ext v \<noteq> JNaN
                  then js_parseInt ext v else v))
      else Inr v)"

text \<open>
  The chain of type cases of \<^verbatim>\<open>prepareHydratedValue\<close>: it either returns from the
  function at once (\<open>Return\<close>) or leaves the decoded value in \<^verbatim>\<open>value\<close> for the
  statements after the chain (\<open>Continue\<close>).
\<close>

datatype flow = Return jsval | Continue jsval

definition continue :: "error + jsval \<Rightarrow> error + flow" where
  "continue r = (case r of Inl e \<Rightarrow> Inl e | Inr v \<Rightarrow> Inr (Continue v))"

definition hydrate_by_type :: "externals \<Rightarrow> jsval \<Rightarrow> column \<Rightarrow> error + flow" where
  "hydrate_by_type ext v columnMetadata =
     (if ctype columnMetadata = TBoolean then Inr (Continue (JBool (truthy v)))
      else if ctype columnMetadata = TNamed ''datetime''
            \<or> ctype columnMetadata = TDate
            \<or> ctype columnMetadata = TNamed ''timestamp''
            \<or> ctype columnMetadata = TNamed ''timestamp with time zone''
            \<or> ctype columnMetadata = TNamed ''timestamp without time zone'' then
        continue (normalizeHydratedDate ext v)
      else if ctype columnMetadata = TNamed ''date'' then continue (mixedDateToDateString ext v)
      else if ctype columnMetadata = TNamed ''time'' then continue (mixedTimeToString ext v)
      else if ctype columnMetadata = TNamed ''hstore'' then
        (if hstoreType columnMetadata = Some ''object''
         then Inr (Continue (hstore_to_object (js_to_string v)))
         else Inr (Continue v))
      else if ctype columnMetadata = TNamed ''simple-array'' then continue (stringToSimpleArray ext v)
      else if ctype columnMetadata = TNamed ''simple-json'' then continue (stringToSimpleJson ext v)
      else if ctype columnMetadata = TNamed ''cube'' then
        (case v of
           JStr s \<Rightarrow>
             (let stripped = filter (\<lambda>c. \<not> (c = CHR ''('' \<or> c = CHR '')'' \<or> is_space c)) s in
              if isArray columnMetadata then
                Inr (Continue (JArr
                  (map (\<lambda>cube. case cube of Some c \<Rightarrow> cube_numbers ext c | None \<Rightarrow> JUndefined)
                     (scan_all match_cube stripped))))
              else Inr (Continue (cube_numbers ext stripped)))
         | _ \<Rightarrow> Inl TypeError)
      else if ctype columnMetadata = TNamed ''enum''
            \<or> ctype columnMetadata = TNamed ''simple-enum'' then
        (if isArray columnMetadata then
           (if v = JStr ''{}'' then Inr (Return (JArr []))
            else
              (case v of
                 JStr s \<Rightarrow>
                   (case sequence_results
                           (map (\<lambda>val. enum_coerce ext columnMetadata (JStr (enum_element val)))
                              (split_on CHR '','' (butlast (tl s)))) of
                      Inl e \<Rightarrow> Inl e
                    | Inr vs \<Rightarrow> Inr (Continue (JArr vs)))
               | _ \<Rightarrow> Inl TypeError))
         else continue (enum_coerce ext columnMetadata v))
      else if ctype columnMetadata = TNumber then
        Inr (Continue (if \<not> plus_isNaN ext v then js_parseInt ext v else v))
      else Inr (Continue v))"

definition prepareHydratedValue :: "externals \<Rightarrow> jsval \<Rightarrow> column \<Rightarrow> error + jsval" where
  "prepareHydratedValue ext v columnMetadata =
     (if v = JNull \<or> v = JUndefined then
        Inr (case transformer columnMetadata of
               Some t \<Rightarrow> transformFrom t v
             | None \<Rightarrow> v)
      else
        (case hydrate_by_type ext v columnMetadata of
           Inl e \<Rightarrow> Inl e
         | Inr (Return r) \<Rightarrow> Inr r
         | Inr (Continue decoded) \<Rightarrow>
             Inr (case transformer columnMetadata of
                    Some t \<Rightarrow> transformFrom t decoded
                  | None \<Rightarrow> decoded)))"

section \<open>The entity metadata builder: data\<close>

text \<open>
  \<^verbatim>\<open>EntityMetadataBuilder.build\<close> works on objects of classes that are not among the
  sources (\<^verbatim>\<open>EntityMetadata\<close>, \<^verbatim>\<open>ColumnMetadata\<close>, \<^verbatim>\<open>RelationMetadata\<close>,
  \<^verbatim>\<open>IndexMetadata\<close>, \<^verbatim>\<open>MetadataArgsStorage\<close> and the junction and join-column
  builders).  The model carries the fields of these objects that the builder's own code
  reads to decide what it does; an assignment to any other field is left out.  The
  connection's driver is the one of this repository's sources,
  \<^verbatim>\<open>this.connection.driver.options.type === "postgres"\<close>, so the branches for other
  drivers are not taken.

  Objects live in stores, so that two places can hold the same object: an address is a
  natural number, a store maps addresses to objects, and a counter gives the next free
  address.  An array that the program extends in place (\<^verbatim>\<open>ownIndices\<close>, \<^verbatim>\<open>indices\<close>) is
  an object too.
\<close>

text \<open>A class (a constructor function, known by its identity) or a name.\<close>

datatype target = ClassT nat | NameT string

datatype table_type = Regular | View | Junction | Closure | ClosureJunction | EntityChild

datatype relation_type = OneToOne | OneToMany | ManyToOne | ManyToMany

text \<open>\<^verbatim>\<open>givenColumnNames\<close> of an index: not given, an array of names, or a function.\<close>

datatype given_names = NoNames | NameArray "string list" | NameFunction

subsection \<open>The metadata args, as the storage hands them out\<close>

record table_args =
  ta_target :: target
  ta_type :: table_type
  ta_name :: "string option"

record column_args =
  ca_target :: target
  ca_propertyName :: string
  ca_name :: "string option"
  ca_primary :: bool
  ca_nullable :: bool
  ca_virtual :: bool

record relation_args =
  ra_target :: target
  ra_propertyName :: string
  ra_type :: target
  ra_relationType :: relation_type

record index_args =
  xa_columns :: given_names
  xa_unique :: bool

text \<open>
  One embedded of an entity, with everything below it: the args of its own columns, of the
  columns of the embeddeds nested in it, and of the relations and indices of the whole
  subtree.
\<close>

record embedded_args =
  ea_columns :: "column_args list"
  ea_nestedColumns :: "column_args list"
  ea_relations :: "relation_args list"
  ea_indices :: "index_args list"

text \<open>
  \<^verbatim>\<open>InheritanceMetadataArgs\<close>: the pattern, and the options of the discriminator column
  when they are given.
\<close>

record discriminator_options =
  do_name :: "string option"
  do_primary :: bool
  do_nullable :: bool

record inheritance_args =
  ia_pattern :: string
  ia_column :: "discriminator_options option"

text \<open>
  The type a foreign key declaration refers to, after a type function has been called: a
  name, an entity schema (with the name and the target of its options) or a class.
\<close>

datatype foreign_key_type =
    FkName string
  | FkSchema string "target option"
  | FkClass nat

text \<open>
  \<^verbatim>\<open>inverseSide\<close> of a foreign key declaration: a column name, or a function of the
  referenced entity's properties map (here: of the referenced entity's address).
\<close>

datatype inverse_side = InverseName string | InverseFunction "nat \<Rightarrow> string"

record foreign_key_args =
  fka_type :: foreign_key_type
  fka_name :: "string option"
  fka_propertyName :: "string option"
  fka_columnNames :: "string list option"
  fka_referencedColumnNames :: "string list option"
  fka_inverseSide :: "inverse_side option"

subsection \<open>The metadata objects\<close>

record column_metadata =
  cm_target :: target
  propertyName :: string
  givenDatabaseName :: "string option"
  databaseName :: "string option"
  isPrimary :: bool
  isNullable :: bool
  isVirtual :: bool
  isDiscriminator :: bool

record relation_metadata =
  rm_target :: target
  rm_propertyName :: string
  propertyPath :: string
  rm_type :: target
  relationType :: relation_type
  inverseEntityMetadata :: "nat option"
  inverseSidePropertyPath :: "string option"
  inverseRelation :: "nat option"
  junctionEntityMetadata :: "nat option"

record index_metadata =
  givenColumnNames :: given_names
  ix_columns :: "nat list"
  isUnique :: bool

record foreign_key_metadata =
  fk_entityMetadata :: nat
  referencedEntityMetadata :: nat
  fk_columns :: "nat list"
  referencedColumns :: "nat list"
  fk_args :: "foreign_key_args option"

record embedded_metadata =
  em_columns :: "nat list"
  columnsFromTree :: "nat list"
  relationsFromTree :: "nat list"
  indicesFromTree :: "index_metadata list"

text \<open>
  An entry of \<^verbatim>\<open>ownColumns\<close> or \<^verbatim>\<open>columns\<close> is a column's address or \<^verbatim>\<open>undefined\<close>;
  \<^verbatim>\<open>ownIndices\<close> and \<^verbatim>\<open>indices\<close> are addresses of arrays.
\<close>

record entity_metadata =
  tableMetadataArgs :: table_args
  target :: target
  tableType :: table_type
  name :: string
  targetName :: string
  givenTableName :: "string option"
  tableName :: string
  isJunction :: bool
  inheritanceTree :: "target list"
  inheritancePattern :: "string option"
  treeType :: "string option"
  parentEntityMetadata :: "nat option"
  embeddeds :: "embedded_metadata list"
  ownColumns :: "nat option list"
  columns :: "nat option list"
  primaryColumns :: "nat list"
  discriminatorColumn :: "nat option"
  ownRelations :: "nat list"
  relations :: "nat list"
  ownIndices :: nat
  indices :: nat
  foreignKeys :: "foreign_key_metadata list"

text \<open>
  The stores, and \<^verbatim>\<open>entityMetadatas\<close>, the local array of \<^verbatim>\<open>build\<close> that it passes to
  its helpers and returns.
\<close>

record builder_state =
  ents :: "nat \<Rightarrow> entity_metadata"
  ents_next :: nat
  cols :: "nat \<Rightarrow> column_metadata"
  cols_next :: nat
  rels :: "nat \<Rightarrow> relation_metadata"
  rels_next :: nat
  arrays :: "nat \<Rightarrow> index_metadata list"
  arrays_next :: nat
  entityMetadatas :: "nat list"

subsection \<open>What the builder takes from code that is not among the sources\<close>

text \<open>What \<^verbatim>\<open>RelationJoinColumnBuilder.build\<close> makes for a relation.\<close>

record join_columns_result =
  jr_columns :: "column_metadata list"
  jr_foreignKey :: "foreign_key_metadata option"
  jr_uniqueConstraint :: bool

text \<open>
  What a junction builder makes: the table's names, its columns, its two (or however
  many) own indices, given by the positions of their columns among the new columns, and
  its foreign keys.
\<close>

record junction_result =
  jn_target :: target
  jn_name :: string
  jn_targetName :: string
  jn_givenTableName :: "string option"
  jn_tableName :: string
  jn_columns :: "column_metadata list"
  jn_indices :: "nat list list"
  jn_foreignKeys :: "foreign_key_metadata list"

text \<open>
  The queries of \<^verbatim>\<open>MetadataArgsStorage\<close>, \<^verbatim>\<open>MetadataUtils.getInheritanceTree\<close>, the
  naming strategy and the builders that \<^verbatim>\<open>EntityMetadataBuilder\<close> calls.  They are
  parameters of the model: every theorem holds whatever they return.
\<close>

record env =
  filterColumns :: "target list \<Rightarrow> column_args list"
  filterRelations :: "target list \<Rightarrow> relation_args list"
  filterEmbeddeds :: "target list \<Rightarrow> embedded_args list"
  filterIndices :: "target list \<Rightarrow> index_args list"
  filterForeignKeys :: "target list \<Rightarrow> foreign_key_args list"
  filterSingleTableChildren :: "target \<Rightarrow> table_args list"
  findInheritanceType :: "target \<Rightarrow> inheritance_args option"
  findTree :: "target \<Rightarrow> string option"
  findJoinTable :: "target \<Rightarrow> string \<Rightarrow> string option"
  findGenerated :: "target \<Rightarrow> string \<Rightarrow> bool"
  getInheritanceTree :: "nat \<Rightarrow> target list"
  entityName :: "table_args \<Rightarrow> string"
  entityTargetName :: "table_args \<Rightarrow> string"
  entityTableName :: "table_args \<Rightarrow> string"
  columnDatabaseName :: "column_metadata \<Rightarrow> string"
  relationPropertyPath :: "relation_metadata \<Rightarrow> string"
  buildInverseSidePropertyPath :: "relation_metadata \<Rightarrow> string option"
  materializedPathColumnName :: string
  nestedSetColumnNames :: "string \<times> string"
  relationJoinColumnBuild :: "builder_state \<Rightarrow> nat \<Rightarrow> nat \<Rightarrow> error + join_columns_result"
  junctionBuild :: "builder_state \<Rightarrow> nat \<Rightarrow> string \<Rightarrow> error + junction_result"
  closureJunctionBuild :: "builder_state \<Rightarrow> nat \<Rightarrow> error + junction_result"

subsection \<open>Stores and loops\<close>

definition new_column :: "column_metadata \<Rightarrow> builder_state \<Rightarrow> nat \<times> builder_state" where
  "new_column c st =
     (cols_next st, st\<lparr>cols := (cols st)(cols_next st := c), cols_next := Suc (cols_next st)\<rparr>)"

definition new_relation :: "relation_metadata \<Rightarrow> builder_state \<Rightarrow> nat \<times> builder_state" where
  "new_relation r st =
     (rels_next st, st\<lparr>rels := (rels st)(rels_next st := r), rels_next := Suc (rels_next st)\<rparr>)"

definition new_array :: "index_metadata list \<Rightarrow> builder_state \<Rightarrow> nat \<times> builder_state" where
  "new_array xs st =
     (arrays_next st,
      st\<lparr>arrays := (arrays st)(arrays_next st := xs), arrays_next := Suc (arrays_next st)\<rparr>)"

definition new_entity :: "entity_metadata \<Rightarrow> builder_state \<Rightarrow> nat \<times> builder_state" where
  "new_entity e st =
     (ents_next st, st\<lparr>ents := (ents st)(ents_next st := e), ents_next := Suc (ents_next st)\<rparr>)"

definition update_entity ::
  "nat \<Rightarrow> (entity_metadata \<Rightarrow> entity_metadata) \<Rightarrow> builder_state \<Rightarrow> builder_state" where
  "update_entity a f st = st\<lparr>ents := (ents st)(a := f (ents st a))\<rparr>"

definition update_column ::
  "nat \<Rightarrow> (column_metadata \<Rightarrow> column_metadata) \<Rightarrow> builder_state \<Rightarrow> builder_state" where
  "update_column a f st = st\<lparr>cols := (cols st)(a := f (cols st a))\<rparr>"

definition update_relation ::
  "nat \<Rightarrow> (relation_metadata \<Rightarrow> relation_metadata) \<Rightarrow> builder_state \<Rightarrow> builder_state" where
  "update_relation a f st = st\<lparr>rels := (rels st)(a := f (rels st a))\<rparr>"

text \<open>\<^verbatim>\<open>array.push(x)\<close> on a stored array.\<close>

definition array_push :: "nat \<Rightarrow> index_metadata \<Rightarrow> builder_state \<Rightarrow> builder_state" where
  "array_push a x st = st\<lparr>arrays := (arrays st)(a := arrays st a @ [x])\<rparr>"

text \<open>
  \<^verbatim>\<open>xs.forEach(f)\<close> and \<^verbatim>\<open>xs.map(f)\<close> where \<open>f\<close> changes the stores and may throw: the
  first exception ends the loop.
\<close>

fun forEach :: "('a \<Rightarrow> 's \<Rightarrow> error + 's) \<Rightarrow> 'a list \<Rightarrow> 's \<Rightarrow> error + 's" where
  "forEach f [] s = Inr s"
| "forEach f (x # xs) s = (case f x s of Inl e \<Rightarrow> Inl e | Inr s' \<Rightarrow> forEach f xs s')"

fun mapM :: "('a \<Rightarrow> 's \<Rightarrow> error + 'b \<times> 's) \<Rightarrow> 'a list \<Rightarrow> 's \<Rightarrow> error + 'b list \<times> 's" where
  "mapM f [] s = Inr ([], s)"
| "mapM f (x # xs) s =
     (case f x s of
        Inl e \<Rightarrow> Inl e
      | Inr (y, s') \<Rightarrow>
          (case mapM f xs s' of Inl e \<Rightarrow> Inl e | Inr (ys, s'') \<Rightarrow> Inr (y # ys, s'')))"

text \<open>
  \<^verbatim>\<open>columns.find((column) => p(column))\<close> on an array whose entries may be
  \<^verbatim>\<open>undefined\<close>: reading a property of such an entry throws.
\<close>

fun find_column ::
  "(column_metadata \<Rightarrow> bool) \<Rightarrow> builder_state \<Rightarrow> nat option list \<Rightarrow> error + nat option" where
  "find_column p st [] = Inr None"
| "find_column p st (None # cs) = Inl TypeError"
| "find_column p st (Some a # cs) =
     (if p (cols st a) then Inr (Some a) else find_column p st cs)"

text \<open>\<^verbatim>\<open>columns.filter((column) => p(column))\<close>, likewise.\<close>

fun filter_columns ::
  "(column_metadata \<Rightarrow> bool) \<Rightarrow> builder_state \<Rightarrow> nat option list \<Rightarrow> error + nat list" where
  "filter_columns p st [] = Inr []"
| "filter_columns p st (None # cs) = Inl TypeError"
| "filter_columns p st (Some a # cs) =
     (case filter_columns p st cs of
        Inl e \<Rightarrow> Inl e
      | Inr as \<Rightarrow> Inr (if p (cols st a) then a # as else as))"


text \<open>Sequencing of steps that may throw.\<close>

definition and_then :: "error + 'a \<Rightarrow> ('a \<Rightarrow> error + 'b) \<Rightarrow> error + 'b" where
  "and_then r f = (case r of Inl e \<Rightarrow> Inl e | Inr x \<Rightarrow> f x)"

text \<open>The addresses in an array of columns that has no \<^verbatim>\<open>undefined\<close> entry.\<close>

definition addresses :: "nat option list \<Rightarrow> nat list" where
  "addresses cs = concat (map (\<lambda>c. case c of Some a \<Rightarrow> [a] | None \<Rightarrow> []) cs)"

fun new_columns :: "column_metadata list \<Rightarrow> builder_state \<Rightarrow> nat list \<times> builder_state" where
  "new_columns [] st = ([], st)"
| "new_columns (c # cs) st =
     (case new_column c st of
        (a, st1) \<Rightarrow> (case new_columns cs st1 of (as, st2) \<Rightarrow> (a # as, st2)))"

fun new_relations :: "relation_metadata list \<Rightarrow> builder_state \<Rightarrow> nat list \<times> builder_state" where
  "new_relations [] st = ([], st)"
| "new_relations (r # rs) st =
     (case new_relation r st of
        (a, st1) \<Rightarrow> (case new_relations rs st1 of (as, st2) \<Rightarrow> (a # as, st2)))"

section \<open>The entity metadata builder: the metadata classes\<close>

text \<open>
  Modelled from the spec: the constructors and the \<^verbatim>\<open>build\<close> methods of
  \<^verbatim>\<open>ColumnMetadata\<close>, \<^verbatim>\<open>RelationMetadata\<close>, \<^verbatim>\<open>IndexMetadata\<close> and \<^verbatim>\<open>EntityMetadata\<close>
  are not among the sources.  A metadata object is created from its raw args, which it
  copies; its \<^verbatim>\<open>build\<close> method computes its names (database name, property path, table
  name) through the naming strategy.
\<close>

definition ColumnMetadata_new :: "column_args \<Rightarrow> column_metadata" where
  "ColumnMetadata_new args =
     \<lparr>cm_target = ca_target args, propertyName = ca_propertyName args,
      givenDatabaseName = ca_name args, databaseName = None, isPrimary = ca_primary args,
      isNullable = ca_nullable args, isVirtual = ca_virtual args, isDiscriminator = False\<rparr>"

definition column_build :: "env \<Rightarrow> column_metadata \<Rightarrow> column_metadata" where
  "column_build env c = c\<lparr>databaseName := Some (columnDatabaseName env c)\<rparr>"

definition RelationMetadata_new :: "relation_args \<Rightarrow> relation_metadata" where
  "RelationMetadata_new args =
     \<lparr>rm_target = ra_target args, rm_propertyName = ra_propertyName args, propertyPath = [],
      rm_type = ra_type args, relationType = ra_relationType args,
      inverseEntityMetadata = None, inverseSidePropertyPath = None, inverseRelation = None,
      junctionEntityMetadata = None\<rparr>"

definition relation_build :: "env \<Rightarrow> relation_metadata \<Rightarrow> relation_metadata" where
  "relation_build env r = r\<lparr>propertyPath := relationPropertyPath env r\<rparr>"

definition IndexMetadata_new :: "index_args \<Rightarrow> index_metadata" where
  "IndexMetadata_new args =
     \<lparr>givenColumnNames = xa_columns args, ix_columns = [], isUnique = xa_unique args\<rparr>"

text \<open>
  \<^verbatim>\<open>new EntityMetadata({ connection, args, inheritanceTree, tableTree, inheritancePattern })\<close>:
  the new object has arrays of its own for \<^verbatim>\<open>ownIndices\<close> and \<^verbatim>\<open>indices\<close>, and no
  columns, relations or foreign keys yet.
\<close>

definition EntityMetadata_new ::
  "table_args \<Rightarrow> target list \<Rightarrow> string option \<Rightarrow> string option \<Rightarrow> builder_state
   \<Rightarrow> nat \<times> builder_state" where
  "EntityMetadata_new args tree tableTree pattern st =
     (case new_array [] st of
        (own, st1) \<Rightarrow>
          (case new_array [] st1 of
             (ixs, st2) \<Rightarrow>
               new_entity
                 \<lparr>tableMetadataArgs = args, target = ta_target args, tableType = ta_type args,
                  name = [], targetName = [], givenTableName = None, tableName = [],
                  isJunction = False, inheritanceTree = tree, inheritancePattern = pattern,
                  treeType = tableTree, parentEntityMetadata = None, embeddeds = [],
                  ownColumns = [], columns = [], primaryColumns = [],
                  discriminatorColumn = None, ownRelations = [], relations = [],
                  ownIndices = own, indices = ixs, foreignKeys = []\<rparr>
                 st2))"

definition entity_build :: "env \<Rightarrow> entity_metadata \<Rightarrow> entity_metadata" where
  "entity_build env e =
     e\<lparr>name := entityName env (tableMetadataArgs e),
       targetName := entityTargetName env (tableMetadataArgs e),
       givenTableName := ta_name (tableMetadataArgs e),
       tableName := entityTableName env (tableMetadataArgs e),
       isJunction := (ta_type (tableMetadataArgs e) = Junction
                      \<or> ta_type (tableMetadataArgs e) = ClosureJunction)\<rparr>"

text \<open>
  \<^verbatim>\<open>EntityMetadata.registerColumn\<close>, which the join-column builder calls for a column it
  creates: the column joins \<^verbatim>\<open>ownColumns\<close>, and \<^verbatim>\<open>columns\<close> and \<^verbatim>\<open>primaryColumns\<close> are
  computed again.
\<close>

definition registerColumn :: "nat \<Rightarrow> nat \<Rightarrow> builder_state \<Rightarrow> builder_state" where
  "registerColumn a c st =
     update_entity a
       (\<lambda>e. e\<lparr>ownColumns := ownColumns e @ [Some c],
              columns := ownColumns e @ [Some c]
                         @ map Some (concat (map columnsFromTree (embeddeds e))),
              primaryColumns :=
                filter (\<lambda>x. isPrimary (cols st x))
                  (addresses (ownColumns e @ [Some c])
                   @ concat (map columnsFromTree (embeddeds e)))\<rparr>)
       st"

text \<open>
  The entity a junction builder returns: a new entity of the given table type with the
  columns, indices and foreign keys the builder made, already built.
\<close>

definition new_junction_entity ::
  "table_type \<Rightarrow> junction_result \<Rightarrow> builder_state \<Rightarrow> nat \<times> builder_state" where
  "new_junction_entity kind res st =
     (case new_columns (jn_columns res) st of
        (cs, st1) \<Rightarrow>
          (case new_array
                  (map (\<lambda>positions.
                          \<lparr>givenColumnNames = NoNames,
                           ix_columns = map (\<lambda>i. cs ! i) (filter (\<lambda>i. i < length cs) positions),
                           isUnique = False\<rparr>)
                     (jn_indices res)) st1 of
             (own, st2) \<Rightarrow>
               (case new_array [] st2 of
                  (ixs, st3) \<Rightarrow>
                    new_entity
                      \<lparr>tableMetadataArgs =
                         \<lparr>ta_target = jn_target res, ta_type = kind,
                          ta_name = jn_givenTableName res\<rparr>,
                       target = jn_target res, tableType = kind,
                       name = jn_name res, targetName = jn_targetName res,
                       givenTableName = jn_givenTableName res, tableName = jn_tableName res,
                       isJunction = (kind = Junction \<or> kind = ClosureJunction),
                       inheritanceTree = [], inheritancePattern = None,
                       treeType = None, parentEntityMetadata = None, embeddeds = [],
                       ownColumns = map Some cs, columns = [], primaryColumns = [],
                       discriminatorColumn = None, ownRelations = [], relations = [],
                       ownIndices = own, indices = ixs, foreignKeys = jn_foreignKeys res\<rparr>
                      st3)))"

section \<open>The entity metadata builder: the passes\<close>

subsection \<open>createEntityMetadata and computeParentEntityMetadata\<close>

definition is_class :: "target \<Rightarrow> bool" where
  "is_class t = (case t of ClassT c \<Rightarrow> True | NameT n \<Rightarrow> False)"

definition createEntityMetadata :: "env \<Rightarrow> table_args \<Rightarrow> builder_state \<Rightarrow> nat \<times> builder_state" where
  "createEntityMetadata env tableArgs st =
     (let inheritanceTree =
            (case ta_target tableArgs of
               ClassT c \<Rightarrow> getInheritanceTree env c
             | NameT n \<Rightarrow> [NameT n]);
          tableInheritance = findInheritanceType env (ta_target tableArgs);
          tableTree = findTree env (ta_target tableArgs);
          singleTableChildrenTargets =
            (if (case tableInheritance of Some i \<Rightarrow> ia_pattern i = ''STI'' | None \<Rightarrow> False)
                \<or> ta_type tableArgs = EntityChild
             then filter is_class
                    (map ta_target (filterSingleTableChildren env (ta_target tableArgs)))
             else [])
      in EntityMetadata_new tableArgs (inheritanceTree @ singleTableChildrenTargets) tableTree
           (map_option ia_pattern tableInheritance) st)"

definition computeParentEntityMetadata :: "nat \<Rightarrow> builder_state \<Rightarrow> builder_state" where
  "computeParentEntityMetadata a st =
     (if tableType (ents st a) = EntityChild then
        update_entity a
          (\<lambda>e. e\<lparr>parentEntityMetadata :=
                   find (\<lambda>p. target (ents st a) \<in> set (inheritanceTree (ents st p))
                              \<and> inheritancePattern (ents st p) = Some ''STI'')
                     (entityMetadatas st)\<rparr>)
          st
      else st)"

subsection \<open>computeEntityMetadataStep1\<close>

text \<open>
  \<^verbatim>\<open>createEmbeddedsRecursively\<close>, for one embedded with everything below it, and the
  marking of its own columns as nullable under single table inheritance.
\<close>

definition createEmbedded ::
  "nat \<Rightarrow> embedded_args \<Rightarrow> builder_state \<Rightarrow> error + embedded_metadata \<times> builder_state" where
  "createEmbedded a args st =
     (case new_columns (map ColumnMetadata_new (ea_columns args)) st of
        (own, st1) \<Rightarrow>
          (case new_relations (map RelationMetadata_new (ea_relations args)) st1 of
             (rs, st2) \<Rightarrow>
               (case new_columns (map ColumnMetadata_new (ea_nestedColumns args)) st2 of
                  (nested, st3) \<Rightarrow>
                    Inr (\<lparr>em_columns = own, columnsFromTree = own @ nested,
                          relationsFromTree = rs,
                          indicesFromTree = map IndexMetadata_new (ea_indices args)\<rparr>,
                         if inheritancePattern (ents st3 a) = Some ''STI''
                         then fold (\<lambda>c. update_column c (\<lambda>column. column\<lparr>isNullable := True\<rparr>))
                                own st3
                         else st3))))"

text \<open>The callback of \<^verbatim>\<open>filterColumns(entityMetadata.inheritanceTree).map\<close>.\<close>

definition step1_column ::
  "nat \<Rightarrow> column_args \<Rightarrow> builder_state \<Rightarrow> error + nat option \<times> builder_state" where
  "step1_column a args st =
     (if tableType (ents st a) = EntityChild then
        (case parentEntityMetadata (ents st a) of
           None \<Rightarrow> Inl TypeError
         | Some p \<Rightarrow>
             (case find_column (\<lambda>column. propertyName column = ca_propertyName args) st
                     (ownColumns (ents st p)) of
                Inl e \<Rightarrow> Inl e
              | Inr found \<Rightarrow> Inr (found, st)))
      else
        (case new_column (ColumnMetadata_new args) st of
           (column, st1) \<Rightarrow>
             (let columnInSingleTableInheritedChild =
                    find (\<lambda>other. tableType (ents st1 other) = EntityChild
                                   \<and> target (ents st1 other) = ca_target args)
                      (entityMetadatas st1)
              in Inr (Some column,
                      if columnInSingleTableInheritedChild \<noteq> None
                      then update_column column (\<lambda>c. c\<lparr>isNullable := True\<rparr>) st1
                      else st1))))"

text \<open>The discriminator column of an entity that declares table inheritance with a column.\<close>

definition step1_discriminator :: "env \<Rightarrow> nat \<Rightarrow> builder_state \<Rightarrow> error + builder_state" where
  "step1_discriminator env a st =
     (case findInheritanceType env (target (ents st a)) of
        None \<Rightarrow> Inr st
      | Some entityInheritance \<Rightarrow>
          (case ia_column entityInheritance of
             None \<Rightarrow> Inr st
           | Some column \<Rightarrow>
               (let discriminatorColumnName =
                      (case do_name column of
                         Some n \<Rightarrow> if n \<noteq> [] then n else ''type''
                       | None \<Rightarrow> ''type'')
                in case find_column (\<lambda>c. propertyName c = discriminatorColumnName) st
                          (ownColumns (ents st a)) of
                     Inl e \<Rightarrow> Inl e
                   | Inr (Some d) \<Rightarrow> Inr (update_column d (\<lambda>c. c\<lparr>isDiscriminator := True\<rparr>) st)
                   | Inr None \<Rightarrow>
                       (case new_column
                               ((ColumnMetadata_new
                                   \<lparr>ca_target = target (ents st a),
                                    ca_propertyName = discriminatorColumnName,
                                    ca_name = do_name column, ca_primary = do_primary column,
                                    ca_nullable = do_nullable column, ca_virtual = True\<rparr>)
                                \<lparr>isVirtual := True, isDiscriminator := True\<rparr>) st of
                          (d, st1) \<Rightarrow>
                            Inr (update_entity a
                                   (\<lambda>e. e\<lparr>ownColumns := ownColumns e @ [Some d]\<rparr>) st1)))))"

text \<open>
  What an entity child takes over from its parent: the discriminator column, the
  inheritance pattern and, when it has none of its own, the tree type.
\<close>

definition step1_child :: "nat \<Rightarrow> builder_state \<Rightarrow> error + builder_state" where
  "step1_child a st =
     (if tableType (ents st a) = EntityChild then
        (case parentEntityMetadata (ents st a) of
           None \<Rightarrow> Inl TypeError
         | Some p \<Rightarrow>
             (case find_column isDiscriminator st (ownColumns (ents st p)) of
                Inl e \<Rightarrow> Inl e
              | Inr found \<Rightarrow>
                  (let st1 =
                         (case found of
                            Some d \<Rightarrow>
                              if Some d \<notin> set (ownColumns (ents st a))
                              then update_entity a
                                     (\<lambda>e. e\<lparr>ownColumns := ownColumns e @ [Some d]\<rparr>) st
                              else st
                          | None \<Rightarrow> st);
                       st2 = update_entity a
                               (\<lambda>e. e\<lparr>inheritancePattern := inheritancePattern (ents st1 p)\<rparr>)
                               st1
                   in Inr (if treeType (ents st2 a) = None \<and> treeType (ents st2 p) \<noteq> None
                           then update_entity a (\<lambda>e. e\<lparr>treeType := treeType (ents st2 p)\<rparr>) st2
                           else st2))))
      else Inr st)"

text \<open>The extra columns of a materialized-path or nested-set tree.\<close>

definition tree_column :: "target \<Rightarrow> string \<Rightarrow> string \<Rightarrow> bool \<Rightarrow> column_metadata" where
  "tree_column t property column_name nullable =
     ColumnMetadata_new
       \<lparr>ca_target = t, ca_propertyName = property, ca_name = Some column_name,
        ca_primary = False, ca_nullable = nullable, ca_virtual = True\<rparr>"

definition step1_tree :: "env \<Rightarrow> nat \<Rightarrow> builder_state \<Rightarrow> builder_state" where
  "step1_tree env a st =
     (if treeType (ents st a) = Some ''materialized-path'' then
        (case new_column
                (tree_column (target (ents st a)) ''mpath'' (materializedPathColumnName env) True)
                st of
           (c, st1) \<Rightarrow> update_entity a (\<lambda>e. e\<lparr>ownColumns := ownColumns e @ [Some c]\<rparr>) st1)
      else if treeType (ents st a) = Some ''nested-set'' then
        (case nestedSetColumnNames env of
           (left, right) \<Rightarrow>
             (case new_column (tree_column (target (ents st a)) left left False) st of
                (l, st1) \<Rightarrow>
                  (case new_column (tree_column (target (ents st a)) right right False)
                          (update_entity a (\<lambda>e. e\<lparr>ownColumns := ownColumns e @ [Some l]\<rparr>) st1) of
                     (r, st2) \<Rightarrow>
                       update_entity a (\<lambda>e. e\<lparr>ownColumns := ownColumns e @ [Some r]\<rparr>) st2)))
      else st)"

text \<open>
  The callback of \<^verbatim>\<open>filterRelations(entityMetadata.inheritanceTree).map\<close>;
  \<open>ra_type args\<close> is the relation type with a type function called.  The clone
  \<^verbatim>\<open>Object.create(parentRelation)\<close> is a new object that reads as the parent's relation
  does at that moment, but for its type.
\<close>

definition step1_relation ::
  "nat \<Rightarrow> relation_args \<Rightarrow> builder_state \<Rightarrow> error + nat \<times> builder_state" where
  "step1_relation a args st =
     (if tableType (ents st a) = EntityChild then
        (case parentEntityMetadata (ents st a) of
           None \<Rightarrow> Inl TypeError
         | Some p \<Rightarrow>
             (case find (\<lambda>relation. rm_propertyName (rels st relation) = ra_propertyName args)
                     (ownRelations (ents st p)) of
                None \<Rightarrow> Inl TypeError
              | Some parentRelation \<Rightarrow>
                  if rm_type (rels st parentRelation) \<noteq> ra_type args
                  then Inr (new_relation ((rels st parentRelation)\<lparr>rm_type := ra_type args\<rparr>) st)
                  else Inr (parentRelation, st)))
      else Inr (new_relation (RelationMetadata_new args) st))"

definition computeEntityMetadataStep1 :: "env \<Rightarrow> nat \<Rightarrow> builder_state \<Rightarrow> error + builder_state" where
  "computeEntityMetadataStep1 env a st =
     and_then (mapM (createEmbedded a) (filterEmbeddeds env (inheritanceTree (ents st a))) st)
       (\<lambda>(es, st1).
     and_then (mapM (step1_column a) (filterColumns env (inheritanceTree (ents st1 a)))
                 (update_entity a (\<lambda>e. e\<lparr>embeddeds := es\<rparr>) st1))
       (\<lambda>(cs, st2).
     and_then (step1_discriminator env a (update_entity a (\<lambda>e. e\<lparr>ownColumns := cs\<rparr>) st2))
       (\<lambda>st3.
     and_then (step1_child a st3)
       (\<lambda>st4.
     and_then (mapM (step1_relation a) (filterRelations env (inheritanceTree (ents st4 a)))
                 (step1_tree env a st4))
       (\<lambda>(rs, st5).
          (case new_array (map IndexMetadata_new (filterIndices env (inheritanceTree (ents st5 a))))
                  (update_entity a (\<lambda>e. e\<lparr>ownRelations := rs\<rparr>) st5) of
             (own, st6) \<Rightarrow> Inr (update_entity a (\<lambda>e. e\<lparr>ownIndices := own\<rparr>) st6)))))))"

subsection \<open>computeEntityMetadataStep2\<close>

text \<open>
  Of the computed properties, the model carries \<^verbatim>\<open>relations\<close>, \<^verbatim>\<open>columns\<close>,
  \<^verbatim>\<open>indices\<close>, \<^verbatim>\<open>primaryColumns\<close> and \<^verbatim>\<open>discriminatorColumn\<close>.  Building an own
  column throws when the entry is \<^verbatim>\<open>undefined\<close>.  \<^verbatim>\<open>embeddeds.reduce(..., ownIndices)\<close>
  returns the array \<^verbatim>\<open>ownIndices\<close> itself when there is no embedded, and a new array
  (made by \<^verbatim>\<open>concat\<close>) otherwise.
\<close>

definition computeEntityMetadataStep2 :: "env \<Rightarrow> nat \<Rightarrow> builder_state \<Rightarrow> error + builder_state" where
  "computeEntityMetadataStep2 env a st =
     (let e = ents st a;
          embeddedColumns = concat (map columnsFromTree (embeddeds e));
          embeddedRelations = concat (map relationsFromTree (embeddeds e))
      in if None \<in> set (ownColumns e) then Inl TypeError
         else
           (let st1 = fold (\<lambda>c. update_column c (column_build env))
                        (embeddedColumns @ addresses (ownColumns e)) st;
                st2 = fold (\<lambda>r. update_relation r (relation_build env))
                        (embeddedRelations @ ownRelations e) st1;
                all_columns = addresses (ownColumns e) @ embeddedColumns
            in case (if embeddeds e = [] then (ownIndices e, st2)
                     else new_array
                            (arrays st2 (ownIndices e) @ concat (map indicesFromTree (embeddeds e)))
                            st2) of
                 (ixs, st3) \<Rightarrow>
                   Inr (update_entity a
                          (\<lambda>x. x\<lparr>relations := ownRelations e @ embeddedRelations,
                                 columns := map Some all_columns,
                                 indices := ixs,
                                 primaryColumns := filter (\<lambda>c. isPrimary (cols st3 c)) all_columns,
                                 discriminatorColumn :=
                                   find (\<lambda>c. isDiscriminator (cols st3 c)) all_columns\<rparr>)
                          st3)))"

subsection \<open>computeInverseProperties\<close>

definition not_found_message :: "string \<Rightarrow> string" where
  "not_found_message what =
     ''Entity metadata for '' @ what
     @ '' was not found. Check if you specified a correct entity object and if it''
     @ [CHR 0x27] @ ''s connected in the connection options.''"

text \<open>
  \<^verbatim>\<open>m.target === relation.type || (typeof relation.type === "string" &&
  (m.targetName === relation.type || m.givenTableName === relation.type))\<close>
\<close>

definition is_relation_target :: "builder_state \<Rightarrow> target \<Rightarrow> nat \<Rightarrow> bool" where
  "is_relation_target st t m \<longleftrightarrow>
     target (ents st m) = t
     \<or> (case t of
          NameT n \<Rightarrow> targetName (ents st m) = n \<or> givenTableName (ents st m) = Some n
        | ClassT c \<Rightarrow> False)"

text \<open>The callback of \<^verbatim>\<open>entityMetadata.relations.forEach\<close>.\<close>

definition inverse_properties_of_relation ::
  "env \<Rightarrow> nat \<Rightarrow> nat \<Rightarrow> builder_state \<Rightarrow> error + builder_state" where
  "inverse_properties_of_relation env a r st =
     (case find (is_relation_target st (rm_type (rels st r))) (entityMetadatas st) of
        None \<Rightarrow>
          Inl (TypeORMError
                 (not_found_message (name (ents st a) @ ''#'' @ propertyPath (rels st r))))
      | Some m \<Rightarrow>
          (let st1 = update_relation r (\<lambda>x. x\<lparr>inverseEntityMetadata := Some m\<rparr>) st;
               st2 = update_relation r
                       (\<lambda>x. x\<lparr>inverseSidePropertyPath := buildInverseSidePropertyPath env x\<rparr>)
                       st1
           in Inr (update_relation r
                     (\<lambda>x. x\<lparr>inverseRelation :=
                              find (\<lambda>foundRelation.
                                      Some (propertyPath (rels st2 foundRelation))
                                      = inverseSidePropertyPath (rels st2 r))
                                (relations (ents st2 m))\<rparr>)
                     st2)))"

definition computeInverseProperties :: "env \<Rightarrow> nat \<Rightarrow> builder_state \<Rightarrow> error + builder_state" where
  "computeInverseProperties env a st =
     forEach (inverse_properties_of_relation env a) (relations (ents st a)) st"

subsection \<open>Join columns and junction entities\<close>

text \<open>
  The callback for a one-to-one or many-to-one relation of an entity: the join-column
  builder makes the relation's columns, which it registers on the entity, its foreign key
  and, for some relations, a unique constraint, after which the entity's computed
  properties are computed again.
\<close>

definition join_columns_of_relation ::
  "env \<Rightarrow> nat \<Rightarrow> nat \<Rightarrow> builder_state \<Rightarrow> error + builder_state" where
  "join_columns_of_relation env a r st =
     (case relationJoinColumnBuild env st a r of
        Inl e \<Rightarrow> Inl e
      | Inr res \<Rightarrow>
          (case new_columns (jr_columns res) st of
             (cs, st1) \<Rightarrow>
               (let st2 = fold (registerColumn a) cs st1;
                    st3 = (case jr_foreignKey res of
                             Some foreignKey \<Rightarrow>
                               update_entity a
                                 (\<lambda>e. e\<lparr>foreignKeys := foreignKeys e @ [foreignKey]\<rparr>) st2
                           | None \<Rightarrow> st2)
                in if jr_uniqueConstraint res then computeEntityMetadataStep2 env a st3
                   else Inr st3)))"

text \<open>
  The callback for a many-to-many relation of an entity (lines 1893 to 1937 of the
  source): with no join table declared for the relation nothing is done; otherwise the
  junction entity is made and registered in the relation
  (\<^verbatim>\<open>relation.registerJunctionEntityMetadata\<close>), its properties are computed, and it is
  pushed to
  \<^verbatim>\<open>entityMetadatas\<close> unless an entity that is not a junction has its table name.
  Reading \<^verbatim>\<open>ownIndices[0].columns\<close> and \<^verbatim>\<open>ownIndices[1].columns\<close> throws when the
  junction entity has fewer than two own indices.
\<close>

definition hasUserDefinedTable :: "builder_state \<Rightarrow> nat \<Rightarrow> bool" where
  "hasUserDefinedTable st j \<longleftrightarrow>
     list_ex (\<lambda>m. tableName (ents st m) = tableName (ents st j) \<and> \<not> isJunction (ents st m))
       (entityMetadatas st)"

definition junction_of_relation :: "env \<Rightarrow> nat \<Rightarrow> builder_state \<Rightarrow> error + builder_state" where
  "junction_of_relation env r st =
     (case findJoinTable env (rm_target (rels st r)) (rm_propertyName (rels st r)) of
        None \<Rightarrow> Inr st
      | Some joinTable \<Rightarrow>
          (case junctionBuild env st r joinTable of
             Inl e \<Rightarrow> Inl e
           | Inr res \<Rightarrow>
               (case new_junction_entity Junction res st of
                  (j, st1) \<Rightarrow>
                    if length (arrays st1 (ownIndices (ents st1 j))) < 2 then Inl TypeError
                    else
                      and_then (computeEntityMetadataStep2 env j
                                  (update_relation r (\<lambda>x. x\<lparr>junctionEntityMetadata := Some j\<rparr>)
                                     st1))
                        (\<lambda>st2.
                      and_then (computeInverseProperties env j st2)
                        (\<lambda>st3.
                           Inr (if \<not> hasUserDefinedTable st3 j
                                then st3\<lparr>entityMetadatas := entityMetadatas st3 @ [j]\<rparr>
                                else st3))))))"

text \<open>The callback for an entity that is not an entity child (lines 1774 to 1938).\<close>

definition join_columns_and_junctions ::
  "env \<Rightarrow> nat \<Rightarrow> builder_state \<Rightarrow> error + builder_state" where
  "join_columns_and_junctions env a st =
     and_then
       (forEach (join_columns_of_relation env a)
          (filter (\<lambda>r. relationType (rels st r) = OneToOne \<or> relationType (rels st r) = ManyToOne)
             (relations (ents st a)))
          st)
       (\<lambda>st1.
          forEach (junction_of_relation env)
            (filter (\<lambda>r. relationType (rels st1 r) = ManyToMany) (relations (ents st1 a)))
            st1)"

subsection \<open>Closure junction entities\<close>

definition closure_junction_of_entity :: "env \<Rightarrow> nat \<Rightarrow> builder_state \<Rightarrow> error + builder_state" where
  "closure_junction_of_entity env a st =
     (case closureJunctionBuild env st a of
        Inl e \<Rightarrow> Inl e
      | Inr res \<Rightarrow>
          (case new_junction_entity ClosureJunction res st of
             (j, st1) \<Rightarrow>
               and_then (computeEntityMetadataStep2 env j st1)
                 (\<lambda>st2.
               and_then (computeInverseProperties env j st2)
                 (\<lambda>st3. Inr (st3\<lparr>entityMetadatas := entityMetadatas st3 @ [j]\<rparr>)))))"

subsection \<open>createKeysForTableInheritance\<close>

text \<open>
  \<^verbatim>\<open>!!givenColumnNames && Array.isArray(givenColumnNames) && givenColumnNames.length === 1
  && givenColumnNames[0] === entityMetadata.discriminatorColumn?.databaseName\<close>
\<close>

definition indexes_discriminator :: "builder_state \<Rightarrow> nat \<Rightarrow> index_metadata \<Rightarrow> bool" where
  "indexes_discriminator st a ix \<longleftrightarrow>
     (case givenColumnNames ix of
        NameArray ns \<Rightarrow>
          length ns = 1
          \<and> Some (hd ns) = (case discriminatorColumn (ents st a) of
                             Some d \<Rightarrow> databaseName (cols st d)
                           | None \<Rightarrow> None)
      | _ \<Rightarrow> False)"

text \<open>
  The index that is pushed is \<^verbatim>\<open>new IndexMetadata({ entityMetadata, columns:
  [entityMetadata.discriminatorColumn!], args: { target, unique: false } })\<close>; \<^verbatim>\<open>build\<close>
  calls the function only for an entity that has a discriminator column.
\<close>

definition createKeysForTableInheritance :: "nat \<Rightarrow> builder_state \<Rightarrow> builder_state" where
  "createKeysForTableInheritance a st =
     (let isDiscriminatorColumnAlreadyIndexed =
            list_ex (indexes_discriminator st a) (arrays st (indices (ents st a)))
      in if isDiscriminatorColumnAlreadyIndexed then st
         else array_push (indices (ents st a))
                \<lparr>givenColumnNames = NoNames,
                 ix_columns = (case discriminatorColumn (ents st a) of
                                 Some d \<Rightarrow> [d]
                               | None \<Rightarrow> []),
                 isUnique = False\<rparr>
                st)"

subsection \<open>createForeignKeys\<close>

text \<open>\<^verbatim>\<open>columnNameToColumn\<close>, the local function of \<^verbatim>\<open>createForeignKeys\<close>.\<close>

definition missing_column_message :: "foreign_key_args \<Rightarrow> string \<Rightarrow> string \<Rightarrow> string" where
  "missing_column_message foreignKeyArgs entity_name columnName =
     ''Foreign key constraint ''
     @ (case fka_name foreignKeyArgs of
          Some n \<Rightarrow> if n \<noteq> [] then [dquote] @ n @ [dquote] @ '' '' else []
        | None \<Rightarrow> [])
     @ ''contains column that is missing in the entity ('' @ entity_name @ ''): '' @ columnName"

definition columnNameToColumn ::
  "builder_state \<Rightarrow> foreign_key_args \<Rightarrow> nat \<Rightarrow> string \<Rightarrow> error + nat" where
  "columnNameToColumn st foreignKeyArgs m columnName =
     (case find_column
             (\<lambda>c. propertyName c = columnName \<or> databaseName c = Some columnName)
             st (columns (ents st m)) of
        Inl e \<Rightarrow> Inl e
      | Inr (Some c) \<Rightarrow> Inr c
      | Inr None \<Rightarrow>
          Inl (TypeORMError
                 (missing_column_message foreignKeyArgs (targetName (ents st m)) columnName)))"

text \<open>
  The test of \<^verbatim>\<open>entityMetadatas.find\<close> for the referenced entity, by the kind of the
  declared type.
\<close>

definition is_referenced_entity :: "builder_state \<Rightarrow> foreign_key_type \<Rightarrow> nat \<Rightarrow> bool" where
  "is_referenced_entity st foreignKeyType m \<longleftrightarrow>
     (case foreignKeyType of
        FkName n \<Rightarrow> targetName (ents st m) = n \<or> givenTableName (ents st m) = Some n
      | FkSchema n t \<Rightarrow> target (ents st m) = NameT n \<or> Some (target (ents st m)) = t
      | FkClass c \<Rightarrow> target (ents st m) = ClassT c)"

text \<open>
  The arrays \<^verbatim>\<open>columnNames\<close> and \<^verbatim>\<open>referencedColumnNames\<close> of
  \<^verbatim>\<open>createForeignKeys\<close> once the property name and the inverse side have been pushed:
  the args' arrays (or empty arrays) with the pushed names at their end.  A property name
  or an inverse side that is the empty string counts as not given.
\<close>

definition declared_property :: "foreign_key_args \<Rightarrow> string list" where
  "declared_property foreignKeyArgs =
     (case fka_propertyName foreignKeyArgs of
        Some p \<Rightarrow> if p \<noteq> [] then [p] else []
      | None \<Rightarrow> [])"

definition columnNames_of :: "foreign_key_args \<Rightarrow> string list" where
  "columnNames_of foreignKeyArgs =
     (case fka_columnNames foreignKeyArgs of Some ns \<Rightarrow> ns | None \<Rightarrow> [])
     @ declared_property foreignKeyArgs"

definition referencedColumnNames_of :: "foreign_key_args \<Rightarrow> nat \<Rightarrow> string list" where
  "referencedColumnNames_of foreignKeyArgs referenced =
     (case fka_referencedColumnNames foreignKeyArgs of Some ns \<Rightarrow> ns | None \<Rightarrow> [])
     @ (if declared_property foreignKeyArgs \<noteq> [] then
          (case fka_inverseSide foreignKeyArgs of
             Some (InverseName n) \<Rightarrow> if n \<noteq> [] then [n] else []
           | Some (InverseFunction f) \<Rightarrow> [f referenced]
           | None \<Rightarrow> [])
        else [])"

text \<open>
  The callback of \<^verbatim>\<open>filterForeignKeys(entityMetadata.inheritanceTree).forEach\<close>: first
  what it computes, the foreign key or the error it throws, then the push of the foreign
  key to \<^verbatim>\<open>entityMetadata.foreignKeys\<close>.
\<close>

definition resolve_foreign_key ::
  "nat \<Rightarrow> foreign_key_args \<Rightarrow> builder_state \<Rightarrow> error + foreign_key_metadata" where
  "resolve_foreign_key a foreignKeyArgs st =
     (case find (is_referenced_entity st (fka_type foreignKeyArgs)) (entityMetadatas st) of
        None \<Rightarrow>
          Inl (TypeORMError
                 (not_found_message
                    (name (ents st a)
                     @ (case fka_propertyName foreignKeyArgs of
                          Some p \<Rightarrow> if p \<noteq> [] then ''#'' @ p else []
                        | None \<Rightarrow> []))))
      | Some referenced \<Rightarrow>
          (let defaults =
                 (if referencedColumnNames_of foreignKeyArgs referenced = []
                  then primaryColumns (ents st referenced)
                  else [])
           in and_then (sequence_results
                          (map (columnNameToColumn st foreignKeyArgs a)
                             (columnNames_of foreignKeyArgs)))
                (\<lambda>own.
              and_then (sequence_results
                          (map (columnNameToColumn st foreignKeyArgs referenced)
                             (referencedColumnNames_of foreignKeyArgs referenced)))
                (\<lambda>refs.
                   Inr \<lparr>fk_entityMetadata = a, referencedEntityMetadata = referenced,
                        fk_columns = own, referencedColumns = defaults @ refs,
                        fk_args = Some foreignKeyArgs\<rparr>))))"

definition create_foreign_key ::
  "nat \<Rightarrow> foreign_key_args \<Rightarrow> builder_state \<Rightarrow> error + builder_state" where
  "create_foreign_key a foreignKeyArgs st =
     and_then (resolve_foreign_key a foreignKeyArgs st)
       (\<lambda>foreignKey.
          Inr (update_entity a (\<lambda>e. e\<lparr>foreignKeys := foreignKeys e @ [foreignKey]\<rparr>) st))"

definition createForeignKeys :: "env \<Rightarrow> nat \<Rightarrow> builder_state \<Rightarrow> error + builder_state" where
  "createForeignKeys env a st =
     forEach (create_foreign_key a) (filterForeignKeys env (inheritanceTree (ents st a))) st"

subsection \<open>Generated columns\<close>

text \<open>The callback of \<^verbatim>\<open>entityMetadata.columns.forEach\<close> at the end of \<^verbatim>\<open>build\<close>.\<close>

definition generated_column :: "env \<Rightarrow> nat \<Rightarrow> nat option \<Rightarrow> builder_state \<Rightarrow> error + builder_state" where
  "generated_column env a entry st =
     (case entry of
        None \<Rightarrow> Inl TypeError
      | Some c \<Rightarrow>
          if findGenerated env (cm_target (cols st c)) (propertyName (cols st c))
          then computeEntityMetadataStep2 env a (update_column c (column_build env) st)
          else Inr st)"

subsection \<open>build\<close>

definition empty_state :: builder_state where
  "empty_state =
     \<lparr>ents = (\<lambda>a. \<lparr>tableMetadataArgs = \<lparr>ta_target = NameT [], ta_type = Regular, ta_name = None\<rparr>,
                   target = NameT [], tableType = Regular, name = [], targetName = [],
                   givenTableName = None, tableName = [], isJunction = False,
                   inheritanceTree = [], inheritancePattern = None, treeType = None,
                   parentEntityMetadata = None, embeddeds = [], ownColumns = [], columns = [],
                   primaryColumns = [], discriminatorColumn = None, ownRelations = [],
                   relations = [], ownIndices = 0, indices = 0, foreignKeys = []\<rparr>),
      ents_next = 0,
      cols = (\<lambda>a. \<lparr>cm_target = NameT [], propertyName = [], givenDatabaseName = None,
                   databaseName = None, isPrimary = False, isNullable = False,
                   isVirtual = False, isDiscriminator = False\<rparr>),
      cols_next = 0,
      rels = (\<lambda>a. \<lparr>rm_target = NameT [], rm_propertyName = [], propertyPath = [],
                   rm_type = NameT [], relationType = OneToOne, inverseEntityMetadata = None,
                   inverseSidePropertyPath = None, inverseRelation = None,
                   junctionEntityMetadata = None\<rparr>),
      rels_next = 0,
      arrays = (\<lambda>a. []),
      arrays_next = 0,
      entityMetadatas = []\<rparr>"

fun create_all :: "env \<Rightarrow> table_args list \<Rightarrow> builder_state \<Rightarrow> nat list \<times> builder_state" where
  "create_all env [] st = ([], st)"
| "create_all env (t # ts) st =
     (case createEntityMetadata env t st of
        (a, st1) \<Rightarrow> (case create_all env ts st1 of (as, st2) \<Rightarrow> (a # as, st2)))"

definition children_of :: "builder_state \<Rightarrow> nat list" where
  "children_of st = filter (\<lambda>a. tableType (ents st a) = EntityChild) (entityMetadatas st)"

definition non_children_of :: "builder_state \<Rightarrow> nat list" where
  "non_children_of st = filter (\<lambda>a. tableType (ents st a) \<noteq> EntityChild) (entityMetadatas st)"

text \<open>
  The loops of \<^verbatim>\<open>build\<close>, in the order of the source; a loop that only fills fields the
  model does not carry is left out.  First the entity metadatas are created from the
  tables that are real, their parents are computed and they are built (the entities that
  are not entity children first).
\<close>

definition build_skeletons :: "env \<Rightarrow> table_args list \<Rightarrow> builder_state" where
  "build_skeletons env allTables =
     (let realTables =
            filter (\<lambda>t. ta_type t = Regular \<or> ta_type t = Closure \<or> ta_type t = EntityChild
                        \<or> ta_type t = View) allTables
      in case create_all env realTables empty_state of
           (created, st0) \<Rightarrow>
             (let st1 = st0\<lparr>entityMetadatas := created\<rparr>;
                  st2 = fold computeParentEntityMetadata (entityMetadatas st1) st1;
                  st3 = fold (\<lambda>a. update_entity a (entity_build env)) (non_children_of st2) st2
              in fold (\<lambda>a. update_entity a (entity_build env)) (children_of st3) st3))"

text \<open>
  Step 1 for the entities that are not entity children, then for the entity children, then
  step 2 for all.
\<close>

definition build_members :: "env \<Rightarrow> builder_state \<Rightarrow> error + builder_state" where
  "build_members env st =
     and_then (forEach (computeEntityMetadataStep1 env) (non_children_of st) st)
       (\<lambda>st1.
     and_then (forEach (computeEntityMetadataStep1 env) (children_of st1) st1)
       (\<lambda>st2. forEach (computeEntityMetadataStep2 env) (entityMetadatas st2) st2))"

definition build_inverse_properties :: "env \<Rightarrow> builder_state \<Rightarrow> error + builder_state" where
  "build_inverse_properties env st =
     forEach (computeInverseProperties env) (entityMetadatas st) st"

definition build_relations :: "env \<Rightarrow> builder_state \<Rightarrow> error + builder_state" where
  "build_relations env st = forEach (join_columns_and_junctions env) (non_children_of st) st"

definition build_closure_junctions :: "env \<Rightarrow> builder_state \<Rightarrow> error + builder_state" where
  "build_closure_junctions env st =
     forEach (closure_junction_of_entity env)
       (filter (\<lambda>a. treeType (ents st a) = Some ''closure-table'') (entityMetadatas st)) st"

definition build_inheritance_keys :: "builder_state \<Rightarrow> builder_state" where
  "build_inheritance_keys st =
     fold createKeysForTableInheritance
       (filter (\<lambda>a. inheritancePattern (ents st a) = Some ''STI''
                     \<and> discriminatorColumn (ents st a) \<noteq> None)
          (entityMetadatas st))
       st"

definition build_foreign_keys :: "env \<Rightarrow> builder_state \<Rightarrow> error + builder_state" where
  "build_foreign_keys env st = forEach (createForeignKeys env) (entityMetadatas st) st"

definition build_generated :: "env \<Rightarrow> builder_state \<Rightarrow> error + builder_state" where
  "build_generated env st =
     forEach (\<lambda>a s. forEach (generated_column env a) (columns (ents s a)) s)
       (entityMetadatas st) st"

text \<open>
  \<^verbatim>\<open>build\<close>, from the tables it is to build (\<^verbatim>\<open>allTables\<close>), loop after loop: each
  definition is \<^verbatim>\<open>build\<close> up to and including one more loop, and gives the stores at
  that point or the exception that ended the build.  \<^verbatim>\<open>build\<close> itself returns the array
  \<^verbatim>\<open>entityMetadatas\<close> (with the stores at that moment).
\<close>

definition build_to_members :: "env \<Rightarrow> table_args list \<Rightarrow> error + builder_state" where
  "build_to_members env allTables = build_members env (build_skeletons env allTables)"

definition build_to_inverse_properties :: "env \<Rightarrow> table_args list \<Rightarrow> error + builder_state" where
  "build_to_inverse_properties env allTables =
     and_then (build_to_members env allTables) (build_inverse_properties env)"

definition build_to_relations :: "env \<Rightarrow> table_args list \<Rightarrow> error + builder_state" where
  "build_to_relations env allTables =
     and_then (build_to_inverse_properties env allTables) (build_relations env)"

definition build_to_closure_junctions :: "env \<Rightarrow> table_args list \<Rightarrow> error + builder_state" where
  "build_to_closure_junctions env allTables =
     and_then (build_to_relations env allTables) (build_closure_junctions env)"

definition build_to_inheritance_keys :: "env \<Rightarrow> table_args list \<Rightarrow> error + builder_state" where
  "build_to_inheritance_keys env allTables =
     and_then (build_to_closure_junctions env allTables) (\<lambda>st. Inr (build_inheritance_keys st))"

definition build_to_foreign_keys :: "env \<Rightarrow> table_args list \<Rightarrow> error + builder_state" where
  "build_to_foreign_keys env allTables =
     and_then (build_to_inheritance_keys env allTables) (build_foreign_keys env)"

definition build :: "env \<Rightarrow> table_args list \<Rightarrow> error + nat list \<times> builder_state" where
  "build env allTables =
     and_then (build_to_foreign_keys env allTables)
       (\<lambda>st.
     and_then (build_generated env st)
       (\<lambda>st'. Inr (entityMetadatas st', st')))"

section \<open>Example inputs\<close>

text \<open>
  A storage in which nothing is declared, and a naming strategy that takes an entity's
  names from the name of its table args, a column's database name from its property name
  and a relation's property path from its property name.  The join-column builder makes
  nothing, and the junction builders fail.
\<close>

definition plain_env :: env where
  "plain_env =
     \<lparr>filterColumns = (\<lambda>ts. []),
      filterRelations = (\<lambda>ts. []),
      filterEmbeddeds = (\<lambda>ts. []),
      filterIndices = (\<lambda>ts. []),
      filterForeignKeys = (\<lambda>ts. []),
      filterSingleTableChildren = (\<lambda>t. []),
      findInheritanceType = (\<lambda>t. None),
      findTree = (\<lambda>t. None),
      findJoinTable = (\<lambda>t p. None),
      findGenerated = (\<lambda>t p. False),
      getInheritanceTree = (\<lambda>c. [ClassT c]),
      entityName = (\<lambda>t. case ta_name t of Some n \<Rightarrow> n | None \<Rightarrow> []),
      entityTargetName = (\<lambda>t. case ta_name t of Some n \<Rightarrow> n | None \<Rightarrow> []),
      entityTableName = (\<lambda>t. case ta_name t of Some n \<Rightarrow> n | None \<Rightarrow> []),
      columnDatabaseName = propertyName,
      relationPropertyPath = rm_propertyName,
      buildInverseSidePropertyPath = (\<lambda>r. None),
      materializedPathColumnName = ''mpath'',
      nestedSetColumnNames = (''nsleft'', ''nsright''),
      relationJoinColumnBuild =
        (\<lambda>st a r. Inr \<lparr>jr_columns = [], jr_foreignKey = None, jr_uniqueConstraint = False\<rparr>),
      junctionBuild = (\<lambda>st r j. Inl TypeError),
      closureJunctionBuild = (\<lambda>st a. Inl TypeError)\<rparr>"

definition plain_column :: "nat \<Rightarrow> string \<Rightarrow> bool \<Rightarrow> column_args" where
  "plain_column c property primary =
     \<lparr>ca_target = ClassT c, ca_propertyName = property, ca_name = None, ca_primary = primary,
      ca_nullable = False, ca_virtual = False\<rparr>"

definition declared_on :: "target list \<Rightarrow> (target \<times> 'a) list \<Rightarrow> 'a list" where
  "declared_on ts decls = map snd (filter (\<lambda>d. fst d \<in> set ts) decls)"

text \<open>
  One class, \<^verbatim>\<open>Content\<close> (class 0): an entity with
  \<^verbatim>\<open>@TableInheritance({ column: { name: "type" } })\<close>, a generated primary column
  \<^verbatim>\<open>id\<close>, and one embedded with one column.  No relation, index or foreign key is
  declared.
\<close>

definition content_env :: env where
  "content_env =
     plain_env
       \<lparr>filterColumns := (\<lambda>ts. declared_on ts [(ClassT 0, plain_column 0 ''id'' True)]),
        filterEmbeddeds :=
          (\<lambda>ts. declared_on ts
                  [(ClassT 0, \<lparr>ea_columns = [plain_column 1 ''createdAt'' False],
                                ea_nestedColumns = [], ea_relations = [], ea_indices = []\<rparr>)]),
        findInheritanceType :=
          (\<lambda>t. if t = ClassT 0
               then Some \<lparr>ia_pattern = ''STI'',
                          ia_column = Some \<lparr>do_name = Some ''type'', do_primary = False,
                                            do_nullable = False\<rparr>\<rparr>
               else None),
        findGenerated := (\<lambda>t p. t = ClassT 0 \<and> p = ''id'')\<rparr>"

definition content_tables :: "table_args list" where
  "content_tables = [\<lparr>ta_target = ClassT 0, ta_type = Regular, ta_name = Some ''Content''\<rparr>]"

text \<open>
  One entity, \<^verbatim>\<open>Tag\<close> (class 2), with a primary column and a many-to-one relation
  \<^verbatim>\<open>owner\<close> to class 9, which is not among the entities.
\<close>

definition tag_env :: env where
  "tag_env =
     plain_env
       \<lparr>filterColumns := (\<lambda>ts. declared_on ts [(ClassT 2, plain_column 2 ''id'' True)]),
        filterRelations :=
          (\<lambda>ts. declared_on ts
                  [(ClassT 2, \<lparr>ra_target = ClassT 2, ra_propertyName = ''owner'',
                                ra_type = ClassT 9, ra_relationType = ManyToOne\<rparr>)])\<rparr>"

definition tag_tables :: "table_args list" where
  "tag_tables = [\<lparr>ta_target = ClassT 2, ta_type = Regular, ta_name = Some ''Tag''\<rparr>]"

text \<open>
  Two entities, \<^verbatim>\<open>Tag\<close> (class 2) and \<^verbatim>\<open>Note\<close> (class 3), each with a primary column
  \<^verbatim>\<open>id\<close>; \<^verbatim>\<open>Note\<close> also has a column \<^verbatim>\<open>tagRef\<close> and declares two foreign keys: one
  on \<^verbatim>\<open>tagRef\<close> to the class \<^verbatim>\<open>Tag\<close> with no referenced column names, and one, named
  \<^verbatim>\<open>FK_bad\<close>, on a column \<^verbatim>\<open>nope\<close> that it does not have.
\<close>

definition note_tag_key :: foreign_key_args where
  "note_tag_key =
     \<lparr>fka_type = FkClass 2, fka_name = Some ''FK_note_tag'', fka_propertyName = None,
      fka_columnNames = Some [''tagRef''], fka_referencedColumnNames = None,
      fka_inverseSide = None\<rparr>"

definition note_bad_key :: foreign_key_args where
  "note_bad_key =
     \<lparr>fka_type = FkName ''Tag'', fka_name = Some ''FK_bad'', fka_propertyName = None,
      fka_columnNames = Some [''nope''], fka_referencedColumnNames = None,
      fka_inverseSide = None\<rparr>"

definition note_env :: env where
  "note_env =
     plain_env
       \<lparr>filterColumns :=
          (\<lambda>ts. declared_on ts
                  [(ClassT 2, plain_column 2 ''id'' True), (ClassT 3, plain_column 3 ''id'' True),
                   (ClassT 3, plain_column 3 ''tagRef'' False)]),
        filterForeignKeys :=
          (\<lambda>ts. declared_on ts [(ClassT 3, note_tag_key), (ClassT 3, note_bad_key)])\<rparr>"

definition note_tables :: "table_args list" where
  "note_tables =
     [\<lparr>ta_target = ClassT 2, ta_type = Regular, ta_name = Some ''Tag''\<rparr>,
      \<lparr>ta_target = ClassT 3, ta_type = Regular, ta_name = Some ''Note''\<rparr>]"

section \<open>Notions for the proofs\<close>

text \<open>
  The entity the type of a relation resolves to: the first of \<^verbatim>\<open>entityMetadatas\<close> that
  passes the test of \<^verbatim>\<open>computeInverseProperties\<close>; and the first relation of an entity
  that resolves to none.
\<close>

definition resolved_target :: "builder_state \<Rightarrow> nat \<Rightarrow> nat option" where
  "resolved_target st r = find (is_relation_target st (rm_type (rels st r))) (entityMetadatas st)"

definition unresolved_relation :: "builder_state \<Rightarrow> nat \<Rightarrow> nat option" where
  "unresolved_relation st a = find (\<lambda>r. resolved_target st r = None) (relations (ents st a))"

text \<open>What inverse-side resolution leaves as it is.\<close>

definition inverse_frame :: "builder_state \<Rightarrow> builder_state \<Rightarrow> bool" where
  "inverse_frame st st' \<longleftrightarrow>
     ents st' = ents st \<and> entityMetadatas st' = entityMetadatas st
     \<and> (\<forall>x. rm_type (rels st' x) = rm_type (rels st x)
            \<and> propertyPath (rels st' x) = propertyPath (rels st x))"





section \<open>Properties of the value codec\<close>

subsection \<open>The hstore literal\<close>




















lemma hstore_encode_value:
  assumes "ctype col = TNamed ''hstore''" and "transformer col = None"
    and "v \<noteq> JNull" and "v \<noteq> JUndefined" and "\<And>s. v \<noteq> JStr s"
  shows "preparePersistentValue ext v col
         = Inr (JStr (join_with '','' (map hstore_pair (own_entries v))))"
  using assms by (cases v) (auto simp: preparePersistentValue_def spatialTypes_def)





subsection \<open>Absent values and the transformer chain\<close>

lemma encode_after_transformer:
  "transformer col = Some t \<Longrightarrow>
   preparePersistentValue ext v col
   = preparePersistentValue ext (transformTo t v) (col\<lparr>transformer := None\<rparr>)"
  by (simp add: preparePersistentValue_def Let_def)

text \<open>
  Claim C7.  Let the value be \<^verbatim>\<open>null\<close> or \<^verbatim>\<open>undefined\<close>.  On a column with no
  transformer, encoding returns the value as it is, and so does decoding.  On a column
  with a transformer, encoding applies the transformer first and goes on with what it
  returns, as it would for any value, and decoding returns what the transformer's
  \<^verbatim>\<open>from\<close> direction makes of the absent value.  A declared array of transformers runs
  first to last when writing and last to first when reading.
\<close>

theorem absent_value_passes_through:
  assumes "v = JNull \<or> v = JUndefined"
  shows "(transformer col = None \<longrightarrow>
            preparePersistentValue ext v col = Inr v \<and> prepareHydratedValue ext v col = Inr v)
       \<and> (\<forall>t. transformer col = Some t \<longrightarrow>
            preparePersistentValue ext v col
            = preparePersistentValue ext (transformTo t v) (col\<lparr>transformer := None\<rparr>)
          \<and> ((transformTo t v = JNull \<or> transformTo t v = JUndefined) \<longrightarrow>
               preparePersistentValue ext v col = Inr (transformTo t v))
          \<and> prepareHydratedValue ext v col = Inr (transformFrom t v))
       \<and> (\<forall>fs. transformTo (Chain fs) v = fold transform_to fs v
              \<and> transformFrom (Chain fs) v = foldr transform_from fs v)"
proof -
  have "preparePersistentValue ext v col = Inr (transformTo t v)"
    if "transformer col = Some t" "transformTo t v = JNull \<or> transformTo t v = JUndefined" for t
    using that by (auto simp: preparePersistentValue_def)
  then show ?thesis
    using assms encode_after_transformer[of col _ ext v]
    by (auto simp: preparePersistentValue_def prepareHydratedValue_def transformTo_def
        transformFrom_def foldr_conv_fold)
qed

theorem absent_value_passes_through_witness:
  "\<forall>ext.
     preparePersistentValue ext JNull
       \<lparr>ctype = TNamed ''text'', isArray = False, hstoreType = None, enum = None,
        transformer = None\<rparr> = Inr JNull
   \<and> prepareHydratedValue ext JNull
       \<lparr>ctype = TNamed ''text'', isArray = False, hstoreType = None, enum = None,
        transformer = None\<rparr> = Inr JNull
   \<and> preparePersistentValue ext JUndefined
       \<lparr>ctype = TBoolean, isArray = False, hstoreType = None, enum = None,
        transformer = Some (Single (ValueTransformer (\<lambda>x. JBool True) (\<lambda>x. x)))\<rparr>
       = Inr (JNum 1)
   \<and> prepareHydratedValue ext JNull
       \<lparr>ctype = TNamed ''text'', isArray = False, hstoreType = None, enum = None,
        transformer = Some (Chain [ValueTransformer (\<lambda>x. x) (\<lambda>x. JArr [JStr ''first'', x]),
                                   ValueTransformer (\<lambda>x. x) (\<lambda>x. JArr [JStr ''second'', x])])\<rparr>
       = Inr (JArr [JStr ''first'', JArr [JStr ''second'', JNull]])"
proof
  fix ext
  let ?plain = "\<lparr>ctype = TNamed ''text'', isArray = False, hstoreType = None, enum = None,
        transformer = None\<rparr>"
  let ?bool = "\<lparr>ctype = TBoolean, isArray = False, hstoreType = None, enum = None,
        transformer = Some (Single (ValueTransformer (\<lambda>x. JBool True) (\<lambda>x. x)))\<rparr>"
  let ?chain = "\<lparr>ctype = TNamed ''text'', isArray = False, hstoreType = None, enum = None,
        transformer = Some (Chain [ValueTransformer (\<lambda>x. x) (\<lambda>x. JArr [JStr ''first'', x]),
                                   ValueTransformer (\<lambda>x. x) (\<lambda>x. JArr [JStr ''second'', x])])\<rparr>"
  have a: "JNull = JNull \<or> JNull = JUndefined" and b: "JUndefined = JNull \<or> JUndefined = JUndefined"
    by simp_all
  show "preparePersistentValue ext JNull ?plain = Inr JNull
      \<and> prepareHydratedValue ext JNull ?plain = Inr JNull
      \<and> preparePersistentValue ext JUndefined ?bool = Inr (JNum 1)
      \<and> prepareHydratedValue ext JNull ?chain
          = Inr (JArr [JStr ''first'', JArr [JStr ''second'', JNull]])"
    using absent_value_passes_through[OF a, of ?plain ext]
      absent_value_passes_through[OF b, of ?bool ext]
      absent_value_passes_through[OF a, of ?chain ext]
    by (simp add: transformTo_def preparePersistentValue_def)
qed

subsection \<open>Boolean columns\<close>

text \<open>
  Claim C8.  On a column of type \<^verbatim>\<open>Boolean\<close>, a value that is not absent (after the
  column's transformer, if it has one) is encoded as the number 1 when it is \<^verbatim>\<open>true\<close>
  and as 0 otherwise.  A storage value that is not absent is decoded to the boolean of its
  truthiness: a boolean to itself, a number to whether it is not zero.  With no
  transformer, decoding what encoding made of a boolean gives the boolean back.
\<close>

theorem boolean_codec:
  assumes "ctype col = TBoolean"
  shows "(\<forall>v. (case transformer col of None \<Rightarrow> v | Some t \<Rightarrow> transformTo t v) \<noteq> JNull
             \<and> (case transformer col of None \<Rightarrow> v | Some t \<Rightarrow> transformTo t v) \<noteq> JUndefined \<longrightarrow>
            preparePersistentValue ext v col
            = Inr (JNum (if (case transformer col of None \<Rightarrow> v | Some t \<Rightarrow> transformTo t v)
                             = JBool True then 1 else 0)))
       \<and> (\<forall>s. s \<noteq> JNull \<and> s \<noteq> JUndefined \<longrightarrow>
            prepareHydratedValue ext s col
            = Inr (case transformer col of
                     None \<Rightarrow> JBool (truthy s)
                   | Some t \<Rightarrow> transformFrom t (JBool (truthy s))))
       \<and> (\<forall>b. truthy (JBool b) = b) \<and> (\<forall>n. truthy (JNum n) = (n \<noteq> 0))
       \<and> (transformer col = None \<longrightarrow>
            (\<forall>b. \<exists>s. preparePersistentValue ext (JBool b) col = Inr s
                    \<and> (s = JNum 1 \<or> s = JNum 0)
                    \<and> prepareHydratedValue ext s col = Inr (JBool b)))"
  using assms
  by (auto simp: preparePersistentValue_def prepareHydratedValue_def hydrate_by_type_def
      split: option.splits)

theorem boolean_codec_witness:
  "\<forall>ext.
     preparePersistentValue ext (JBool True)
       \<lparr>ctype = TBoolean, isArray = False, hstoreType = None, enum = None, transformer = None\<rparr>
       = Inr (JNum 1)
   \<and> preparePersistentValue ext (JBool False)
       \<lparr>ctype = TBoolean, isArray = False, hstoreType = None, enum = None, transformer = None\<rparr>
       = Inr (JNum 0)
   \<and> preparePersistentValue ext (JStr ''true'')
       \<lparr>ctype = TBoolean, isArray = False, hstoreType = None, enum = None, transformer = None\<rparr>
       = Inr (JNum 0)
   \<and> prepareHydratedValue ext (JNum 1)
       \<lparr>ctype = TBoolean, isArray = False, hstoreType = None, enum = None, transformer = None\<rparr>
       = Inr (JBool True)
   \<and> prepareHydratedValue ext (JNum 0)
       \<lparr>ctype = TBoolean, isArray = False, hstoreType = None, enum = None, transformer = None\<rparr>
       = Inr (JBool False)
   \<and> prepareHydratedValue ext (JBool True)
       \<lparr>ctype = TBoolean, isArray = False, hstoreType = None, enum = None, transformer = None\<rparr>
       = Inr (JBool True)"
proof
  fix ext
  let ?col = "\<lparr>ctype = TBoolean, isArray = False, hstoreType = None, enum = None,
                transformer = None\<rparr>"
  have "ctype ?col = TBoolean" by simp
  from boolean_codec[OF this, of ext]
  show "preparePersistentValue ext (JBool True) ?col = Inr (JNum 1)
      \<and> preparePersistentValue ext (JBool False) ?col = Inr (JNum 0)
      \<and> preparePersistentValue ext (JStr ''true'') ?col = Inr (JNum 0)
      \<and> prepareHydratedValue ext (JNum 1) ?col = Inr (JBool True)
      \<and> prepareHydratedValue ext (JNum 0) ?col = Inr (JBool False)
      \<and> prepareHydratedValue ext (JBool True) ?col = Inr (JBool True)"
    by simp
qed

subsection \<open>The empty enum array\<close>

lemma enum_coerce_transformer [simp]:
  "enum_coerce ext (col\<lparr>transformer := t\<rparr>) v = enum_coerce ext col v"
  by (simp add: enum_coerce_def)

lemma hydrate_by_type_transformer [simp]:
  "hydrate_by_type ext v (col\<lparr>transformer := t\<rparr>) = hydrate_by_type ext v col"
  by (simp add: hydrate_by_type_def Let_def cong: jsval.case_cong)

lemma continue_not_Return: "continue r \<noteq> Inr (Return x)"
  by (cases r) (simp_all add: continue_def)

lemma hydrate_by_type_Return:
  assumes "hydrate_by_type ext v col = Inr (Return r)"
  shows "(ctype col = TNamed ''enum'' \<or> ctype col = TNamed ''simple-enum'') \<and> isArray col
         \<and> v = JStr ''{}'' \<and> r = JArr []"
proof -
  have c: "continue x = Inr (Return r) \<Longrightarrow> False" for x
    using continue_not_Return[of x r] by simp
  show ?thesis
    using assms unfolding hydrate_by_type_def
    by (auto split: if_splits jsval.splits sum.splits simp: Let_def dest: c)
qed

text \<open>
  Claim C9.  On an enum (or simple-enum) array column, decoding the string \<^verbatim>\<open>{}\<close>
  returns the empty array whatever transformer the column declares.  For every other value
  that is not absent, on every column with a transformer, decoding is decoding on the same
  column without the transformer, followed by the transformer's \<^verbatim>\<open>from\<close> direction on the
  decoded value (or the same error, when decoding fails).
\<close>

theorem enum_array_empty_bypasses_transformer:
  "((ctype col = TNamed ''enum'' \<or> ctype col = TNamed ''simple-enum'') \<and> isArray col \<longrightarrow>
      prepareHydratedValue ext (JStr ''{}'') col = Inr (JArr []))
   \<and> (v \<noteq> JNull \<and> v \<noteq> JUndefined
      \<and> \<not> ((ctype col = TNamed ''enum'' \<or> ctype col = TNamed ''simple-enum'') \<and> isArray col
            \<and> v = JStr ''{}'') \<longrightarrow>
      (\<forall>t. transformer col = Some t \<longrightarrow>
         prepareHydratedValue ext v col
         = (case prepareHydratedValue ext v (col\<lparr>transformer := None\<rparr>) of
              Inl e \<Rightarrow> Inl e
            | Inr decoded \<Rightarrow> Inr (transformFrom t decoded))))"
proof (intro conjI impI allI)
  assume "(ctype col = TNamed ''enum'' \<or> ctype col = TNamed ''simple-enum'') \<and> isArray col"
  then show "prepareHydratedValue ext (JStr ''{}'') col = Inr (JArr [])"
    by (auto simp: prepareHydratedValue_def hydrate_by_type_def)
next
  fix t
  assume v: "v \<noteq> JNull \<and> v \<noteq> JUndefined
      \<and> \<not> ((ctype col = TNamed ''enum'' \<or> ctype col = TNamed ''simple-enum'') \<and> isArray col
            \<and> v = JStr ''{}'')"
    and t: "transformer col = Some t"
  show "prepareHydratedValue ext v col
         = (case prepareHydratedValue ext v (col\<lparr>transformer := None\<rparr>) of
              Inl e \<Rightarrow> Inl e
            | Inr decoded \<Rightarrow> Inr (transformFrom t decoded))"
  proof (cases "hydrate_by_type ext v col")
    case (Inl e)
    then show ?thesis using v by (simp add: prepareHydratedValue_def)
  next
    case (Inr f)
    show ?thesis
    proof (cases f)
      case (Return r)
      with Inr v show ?thesis using hydrate_by_type_Return[of ext v col r] by blast
    next
      case (Continue d)
      with Inr v t show ?thesis by (simp add: prepareHydratedValue_def)
    qed
  qed
qed

theorem enum_array_empty_bypasses_transformer_witness:
  "\<forall>ext.
     prepareHydratedValue ext (JStr ''{}'')
       \<lparr>ctype = TNamed ''enum'', isArray = True, hstoreType = None, enum = Some [JStr ''a''],
        transformer = Some (Single (ValueTransformer (\<lambda>x. x) (\<lambda>x. JStr ''seen'')))\<rparr>
       = Inr (JArr [])
   \<and> prepareHydratedValue ext (JNum 0)
       \<lparr>ctype = TBoolean, isArray = False, hstoreType = None, enum = None,
        transformer = Some (Single (ValueTransformer (\<lambda>x. x) (\<lambda>x. JStr ''seen'')))\<rparr>
       = Inr (JStr ''seen'')"
proof
  fix ext
  let ?e = "\<lparr>ctype = TNamed ''enum'', isArray = True, hstoreType = None, enum = Some [JStr ''a''],
        transformer = Some (Single (ValueTransformer (\<lambda>x. x) (\<lambda>x. JStr ''seen'')))\<rparr>"
  let ?b = "\<lparr>ctype = TBoolean, isArray = False, hstoreType = None, enum = None,
        transformer = Some (Single (ValueTransformer (\<lambda>x. x) (\<lambda>x. JStr ''seen'')))\<rparr>"
  show "prepareHydratedValue ext (JStr ''{}'') ?e = Inr (JArr [])
      \<and> prepareHydratedValue ext (JNum 0) ?b = Inr (JStr ''seen'')"
    using enum_array_empty_bypasses_transformer[of ?e ext "JNum 0"]
      enum_array_empty_bypasses_transformer[of ?b ext "JNum 0"]
    by (simp add: prepareHydratedValue_def hydrate_by_type_def transformFrom_def)
qed

subsection \<open>An hstore value that is already a string\<close>

text \<open>
  Claim C10.  On an hstore column, a value that is a string (after the column's
  transformer, if it has one) is returned as it is: nothing is quoted or escaped.  A value
  that is neither absent nor a string is written as the quoted pairs of its own
  properties.
\<close>

theorem hstore_string_verbatim:
  assumes "ctype col = TNamed ''hstore''"
  shows "(transformer col = None \<longrightarrow> preparePersistentValue ext (JStr s) col = Inr (JStr s))
       \<and> (\<forall>t. transformer col = Some t \<and> transformTo t v = JStr s \<longrightarrow>
            preparePersistentValue ext v col = Inr (JStr s))
       \<and> (transformer col = None \<and> v \<noteq> JNull \<and> v \<noteq> JUndefined \<and> (\<forall>x. v \<noteq> JStr x) \<longrightarrow>
            preparePersistentValue ext v col
            = Inr (JStr (join_with '','' (map hstore_pair (own_entries v)))))"
proof -
  have "preparePersistentValue ext v col
        = Inr (JStr (join_with '','' (map hstore_pair (own_entries v))))"
    if "transformer col = None" "v \<noteq> JNull" "v \<noteq> JUndefined" "\<forall>x. v \<noteq> JStr x"
    using that assms by (intro hstore_encode_value) simp_all
  moreover have "preparePersistentValue ext (JStr s) col = Inr (JStr s)"
    if "transformer col = None"
    using that assms by (simp add: preparePersistentValue_def spatialTypes_def)
  moreover have "preparePersistentValue ext v col = Inr (JStr s)"
    if "transformer col = Some t" "transformTo t v = JStr s" for t
    using that assms by (simp add: preparePersistentValue_def spatialTypes_def)
  ultimately show ?thesis by blast
qed

theorem hstore_string_verbatim_witness:
  "\<forall>ext.
     preparePersistentValue ext (JStr [CHR ''a'', dquote, bslash, CHR ''='', CHR ''>''])
       \<lparr>ctype = TNamed ''hstore'', isArray = False, hstoreType = Some ''string'', enum = None,
        transformer = None\<rparr>
     = Inr (JStr [CHR ''a'', dquote, bslash, CHR ''='', CHR ''>''])
   \<and> preparePersistentValue ext (JObj [([CHR ''a'', dquote], JStr [bslash])])
       \<lparr>ctype = TNamed ''hstore'', isArray = False, hstoreType = Some ''string'', enum = None,
        transformer = None\<rparr>
     = Inr (JStr [dquote, CHR ''a'', bslash, dquote, dquote, CHR ''='', CHR ''>'',
                  dquote, bslash, bslash, dquote])"
proof
  fix ext
  let ?col = "\<lparr>ctype = TNamed ''hstore'', isArray = False, hstoreType = Some ''string'',
                enum = None, transformer = None\<rparr>"
  have "ctype ?col = TNamed ''hstore''" by simp
  from hstore_string_verbatim[OF this, of ext "[CHR ''a'', dquote, bslash, CHR ''='', CHR ''>'']"
      "JObj [([CHR ''a'', dquote], JStr [bslash])]"]
  show "preparePersistentValue ext (JStr [CHR ''a'', dquote, bslash, CHR ''='', CHR ''>'']) ?col
     = Inr (JStr [CHR ''a'', dquote, bslash, CHR ''='', CHR ''>''])
   \<and> preparePersistentValue ext (JObj [([CHR ''a'', dquote], JStr [bslash])]) ?col
     = Inr (JStr [dquote, CHR ''a'', bslash, dquote, dquote, CHR ''='', CHR ''>'',
                  dquote, bslash, bslash, dquote])"
    by (simp add: hstore_pair_def quoteString_def object_keys_def is_array_index_def
        is_digit_def obj_get_def)
qed

section \<open>Properties of the builder\<close>

lemmas store_defs = new_column_def new_relation_def new_array_def new_entity_def update_entity_def
  update_column_def update_relation_def array_push_def and_then_def addresses_def

lemmas class_defs = ColumnMetadata_new_def column_build_def RelationMetadata_new_def
  relation_build_def IndexMetadata_new_def EntityMetadata_new_def entity_build_def
  registerColumn_def new_junction_entity_def

lemmas pass_defs = build_def build_to_members_def build_to_inverse_properties_def
  build_to_relations_def build_to_closure_junctions_def build_to_inheritance_keys_def
  build_to_foreign_keys_def build_skeletons_def build_members_def build_inverse_properties_def
  build_relations_def build_closure_junctions_def build_inheritance_keys_def build_foreign_keys_def
  build_generated_def createEntityMetadata_def computeParentEntityMetadata_def
  computeEntityMetadataStep1_def computeEntityMetadataStep2_def createEmbedded_def step1_column_def
  step1_discriminator_def step1_child_def step1_tree_def step1_relation_def
  computeInverseProperties_def inverse_properties_of_relation_def is_relation_target_def
  join_columns_and_junctions_def join_columns_of_relation_def junction_of_relation_def
  hasUserDefinedTable_def closure_junction_of_entity_def createKeysForTableInheritance_def
  createForeignKeys_def create_foreign_key_def resolve_foreign_key_def columnNameToColumn_def is_referenced_entity_def
  declared_property_def columnNames_of_def referencedColumnNames_of_def
  generated_column_def indexes_discriminator_def
  non_children_of_def children_of_def empty_state_def is_class_def

lemmas example_defs = plain_env_def plain_column_def declared_on_def content_env_def
  content_tables_def tag_env_def tag_tables_def note_tag_key_def note_bad_key_def note_env_def
  note_tables_def

subsection \<open>Inverse-side resolution\<close>

lemma and_then_Inl [simp]: "and_then (Inl e) f = Inl e"
  by (simp add: and_then_def)

lemma and_then_Inr [simp]: "and_then (Inr x) f = f x"
  by (simp add: and_then_def)


lemma inverse_frame_refl: "inverse_frame st st"
  by (simp add: inverse_frame_def)

lemma inverse_frame_trans: "inverse_frame a b \<Longrightarrow> inverse_frame b c \<Longrightarrow> inverse_frame a c"
  by (simp add: inverse_frame_def)

lemma is_relation_target_frame: "inverse_frame st st' \<Longrightarrow> is_relation_target st' = is_relation_target st"
  by (intro ext) (simp add: inverse_frame_def is_relation_target_def split: target.splits)

lemma resolved_target_frame: "inverse_frame st st' \<Longrightarrow> resolved_target st' r = resolved_target st r"
  using is_relation_target_frame[of st st'] by (simp add: resolved_target_def inverse_frame_def)

lemma inverse_step_error:
  "resolved_target st r = None \<Longrightarrow>
   inverse_properties_of_relation env a r st
   = Inl (TypeORMError (not_found_message (name (ents st a) @ ''#'' @ propertyPath (rels st r))))"
  by (simp add: inverse_properties_of_relation_def resolved_target_def)

lemma inverse_step_ok:
  assumes "resolved_target st r = Some m"
  shows "\<exists>st'. inverse_properties_of_relation env a r st = Inr st' \<and> inverse_frame st st'
           \<and> inverseEntityMetadata (rels st' r) = Some m
           \<and> (\<forall>x. x \<noteq> r \<longrightarrow> rels st' x = rels st x)"
  using assms
  by (simp add: inverse_properties_of_relation_def resolved_target_def Let_def
      update_relation_def inverse_frame_def)


lemma inverse_loop:
  "(case find (\<lambda>r. resolved_target st r = None) rs of
      Some r \<Rightarrow>
        forEach (inverse_properties_of_relation env a) rs st
        = Inl (TypeORMError (not_found_message (name (ents st a) @ ''#'' @ propertyPath (rels st r))))
    | None \<Rightarrow>
        (\<exists>st'. forEach (inverse_properties_of_relation env a) rs st = Inr st'
               \<and> inverse_frame st st'
               \<and> (\<forall>r \<in> set rs. inverseEntityMetadata (rels st' r) = resolved_target st r)
               \<and> (\<forall>x. x \<notin> set rs \<longrightarrow> rels st' x = rels st x)))"
proof (induction rs arbitrary: st)
  case Nil
  show ?case by (simp add: inverse_frame_refl)
next
  case (Cons r rs)
  show ?case
  proof (cases "resolved_target st r")
    case None
    then show ?thesis by (simp add: inverse_step_error)
  next
    case (Some m)
    from inverse_step_ok[OF Some, of env a] obtain st1 where
      step: "inverse_properties_of_relation env a r st = Inr st1" and
      fr: "inverse_frame st st1" and
      inv: "inverseEntityMetadata (rels st1 r) = Some m" and
      others: "\<forall>x. x \<noteq> r \<longrightarrow> rels st1 x = rels st x"
      by blast
    have same: "resolved_target st1 x = resolved_target st x" for x
      by (rule resolved_target_frame[OF fr])
    have nm: "name (ents st1 a) = name (ents st a)"
      and pp: "propertyPath (rels st1 x) = propertyPath (rels st x)" for x
      using fr by (simp_all add: inverse_frame_def)
    show ?thesis
    proof (cases "find (\<lambda>r. resolved_target st r = None) rs")
      case None
      with Cons.IH[of st1] obtain st' where
        loop: "forEach (inverse_properties_of_relation env a) rs st1 = Inr st'" and
        fr': "inverse_frame st1 st'" and
        all: "\<forall>r \<in> set rs. inverseEntityMetadata (rels st' r) = resolved_target st1 r" and
        rest: "\<forall>x. x \<notin> set rs \<longrightarrow> rels st' x = rels st1 x"
        by (auto simp: same)
      have "inverseEntityMetadata (rels st' r) = resolved_target st r"
      proof (cases "r \<in> set rs")
        case True
        then show ?thesis using all same by simp
      next
        case False
        then show ?thesis using rest inv Some by simp
      qed
      then show ?thesis
        using Some None step loop all rest others inverse_frame_trans[OF fr fr']
        by (simp add: same)
    next
      case (Some bad)
      with Cons.IH[of st1] \<open>resolved_target st r = Some m\<close> step show ?thesis
        by (simp add: same nm pp)
    qed
  qed
qed


lemma unresolved_relation_frame:
  "inverse_frame st st' \<Longrightarrow> unresolved_relation st' a = unresolved_relation st a"
  using resolved_target_frame[of st st']
  by (simp add: unresolved_relation_def inverse_frame_def)

lemma inverse_entity:
  "(case unresolved_relation st a of
      Some r \<Rightarrow>
        computeInverseProperties env a st
        = Inl (TypeORMError (not_found_message (name (ents st a) @ ''#'' @ propertyPath (rels st r))))
    | None \<Rightarrow>
        (\<exists>st'. computeInverseProperties env a st = Inr st'
               \<and> inverse_frame st st'
               \<and> (\<forall>r \<in> set (relations (ents st a)).
                     inverseEntityMetadata (rels st' r) = resolved_target st r)
               \<and> (\<forall>x. x \<notin> set (relations (ents st a)) \<longrightarrow> rels st' x = rels st x)))"
  unfolding unresolved_relation_def computeInverseProperties_def by (rule inverse_loop)

lemma inverse_pass:
  "(case find (\<lambda>a. unresolved_relation st a \<noteq> None) as of
      Some a \<Rightarrow>
        forEach (computeInverseProperties env) as st
        = Inl (TypeORMError
                 (not_found_message
                    (name (ents st a) @ ''#''
                     @ propertyPath (rels st (the (unresolved_relation st a))))))
    | None \<Rightarrow>
        (\<exists>st'. forEach (computeInverseProperties env) as st = Inr st'
               \<and> inverse_frame st st'
               \<and> (\<forall>x. rels st' x = rels st x
                       \<or> inverseEntityMetadata (rels st' x) = resolved_target st x)
               \<and> (\<forall>a \<in> set as. \<forall>r \<in> set (relations (ents st a)).
                     inverseEntityMetadata (rels st' r) = resolved_target st r)))"
proof (induction as arbitrary: st)
  case Nil
  show ?case by (simp add: inverse_frame_refl)
next
  case (Cons a as)
  show ?case
  proof (cases "unresolved_relation st a")
    case (Some r)
    then show ?thesis using inverse_entity[where st = st and a = a and env = env] by simp
  next
    case None
    with inverse_entity[where st = st and a = a and env = env] obtain st1 where
      step: "computeInverseProperties env a st = Inr st1" and
      fr: "inverse_frame st st1" and
      done_a: "\<forall>r \<in> set (relations (ents st a)).
                 inverseEntityMetadata (rels st1 r) = resolved_target st r" and
      others: "\<forall>x. x \<notin> set (relations (ents st a)) \<longrightarrow> rels st1 x = rels st x"
      by auto
    have un: "unresolved_relation st1 x = unresolved_relation st x" for x
      by (rule unresolved_relation_frame[OF fr])
    have rt: "resolved_target st1 x = resolved_target st x" for x
      by (rule resolved_target_frame[OF fr])
    have es: "ents st1 = ents st" and pp: "propertyPath (rels st1 x) = propertyPath (rels st x)" for x
      using fr by (simp_all add: inverse_frame_def)
    show ?thesis
    proof (cases "find (\<lambda>a. unresolved_relation st a \<noteq> None) as")
      case (Some bad)
      with Cons.IH[of st1] None step show ?thesis
        by (simp add: un es pp)
    next
      case no_bad: None
      with Cons.IH[of st1] obtain st' where
        loop: "forEach (computeInverseProperties env) as st1 = Inr st'" and
        fr': "inverse_frame st1 st'" and
        each: "\<forall>x. rels st' x = rels st1 x
                 \<or> inverseEntityMetadata (rels st' x) = resolved_target st x" and
        rest: "\<forall>b \<in> set as. \<forall>r \<in> set (relations (ents st b)).
                 inverseEntityMetadata (rels st' r) = resolved_target st r"
        by (auto simp: un es rt)
      have first: "inverseEntityMetadata (rels st' r) = resolved_target st r"
        if r: "r \<in> set (relations (ents st a))" for r
        using each done_a r by metis
      have every: "rels st' x = rels st x
                 \<or> inverseEntityMetadata (rels st' x) = resolved_target st x" for x
        using each others done_a by metis
      show ?thesis
        using None no_bad step loop rest first every inverse_frame_trans[OF fr fr'] by simp
    qed
  qed
qed

text \<open>
  Claim C3.  Take the state in which inverse-side resolution starts.  An entity is the
  target of a relation when its target is the relation's type, or the type is a name and
  is the entity's target name or given table name.  If every relation of every entity has
  such an entity among \<^verbatim>\<open>entityMetadatas\<close>, the pass goes through and leaves in each
  relation's \<^verbatim>\<open>inverseEntityMetadata\<close> such an entity.  Otherwise there is a relation of
  an entity with no target, and the pass and the whole of \<^verbatim>\<open>build\<close> end with the error
  whose message names that entity and the relation's property path: \<^verbatim>\<open>build\<close> returns
  the error and no metadata.
\<close>

theorem inverse_side_resolution:
  assumes "build_to_members env allTables = Inr st"
  shows "(\<forall>t m. is_relation_target st t m \<longleftrightarrow>
            target (ents st m) = t
            \<or> (\<exists>n. t = NameT n
                  \<and> (targetName (ents st m) = n \<or> givenTableName (ents st m) = Some n)))
       \<and> (if \<forall>a \<in> set (entityMetadatas st). \<forall>r \<in> set (relations (ents st a)).
               \<exists>m \<in> set (entityMetadatas st). is_relation_target st (rm_type (rels st r)) m
           then \<exists>st'. build_inverse_properties env st = Inr st'
                  \<and> (\<forall>a \<in> set (entityMetadatas st). \<forall>r \<in> set (relations (ents st a)).
                        \<exists>m. inverseEntityMetadata (rels st' r) = Some m
                           \<and> m \<in> set (entityMetadatas st)
                           \<and> is_relation_target st (rm_type (rels st r)) m)
           else \<exists>a r. a \<in> set (entityMetadatas st) \<and> r \<in> set (relations (ents st a))
                  \<and> (\<forall>m \<in> set (entityMetadatas st).
                        \<not> is_relation_target st (rm_type (rels st r)) m)
                  \<and> build_inverse_properties env st
                    = Inl (TypeORMError
                             (not_found_message
                                (name (ents st a) @ ''#'' @ propertyPath (rels st r))))
                  \<and> build env allTables
                    = Inl (TypeORMError
                             (not_found_message
                                (name (ents st a) @ ''#'' @ propertyPath (rels st r)))))"
proof -
  have spelled: "is_relation_target st t m \<longleftrightarrow>
            target (ents st m) = t
            \<or> (\<exists>n. t = NameT n
                  \<and> (targetName (ents st m) = n \<or> givenTableName (ents st m) = Some n))" for t m
    by (cases t) (auto simp: is_relation_target_def)
  have none_iff: "resolved_target st r = None \<longleftrightarrow>
      (\<forall>m \<in> set (entityMetadatas st). \<not> is_relation_target st (rm_type (rels st r)) m)" for r
    by (auto simp: resolved_target_def find_None_iff)
  have unres_iff: "unresolved_relation st a = None \<longleftrightarrow>
      (\<forall>r \<in> set (relations (ents st a)). resolved_target st r \<noteq> None)" for a
    by (auto simp: unresolved_relation_def find_None_iff)
  let ?all = "\<forall>a \<in> set (entityMetadatas st). \<forall>r \<in> set (relations (ents st a)).
               \<exists>m \<in> set (entityMetadatas st). is_relation_target st (rm_type (rels st r)) m"
  have branch: "(if ?all
           then \<exists>st'. build_inverse_properties env st = Inr st'
                  \<and> (\<forall>a \<in> set (entityMetadatas st). \<forall>r \<in> set (relations (ents st a)).
                        \<exists>m. inverseEntityMetadata (rels st' r) = Some m
                           \<and> m \<in> set (entityMetadatas st)
                           \<and> is_relation_target st (rm_type (rels st r)) m)
           else \<exists>a r. a \<in> set (entityMetadatas st) \<and> r \<in> set (relations (ents st a))
                  \<and> (\<forall>m \<in> set (entityMetadatas st).
                        \<not> is_relation_target st (rm_type (rels st r)) m)
                  \<and> build_inverse_properties env st
                    = Inl (TypeORMError
                             (not_found_message
                                (name (ents st a) @ ''#'' @ propertyPath (rels st r))))
                  \<and> build env allTables
                    = Inl (TypeORMError
                             (not_found_message
                                (name (ents st a) @ ''#'' @ propertyPath (rels st r)))))"
  proof (cases "find (\<lambda>a. unresolved_relation st a \<noteq> None) (entityMetadatas st)")
    case None
    then have all: ?all
      by (auto simp: find_None_iff unres_iff none_iff)
    from None inverse_pass[where st = st and as = "entityMetadatas st" and env = env]
    obtain st' where
      ok: "build_inverse_properties env st = Inr st'" and
      each: "\<forall>a \<in> set (entityMetadatas st). \<forall>r \<in> set (relations (ents st a)).
               inverseEntityMetadata (rels st' r) = resolved_target st r"
      by (auto simp: build_inverse_properties_def)
    have "\<exists>m. inverseEntityMetadata (rels st' r) = Some m \<and> m \<in> set (entityMetadatas st)
             \<and> is_relation_target st (rm_type (rels st r)) m"
      if "a \<in> set (entityMetadatas st)" "r \<in> set (relations (ents st a))" for a r
    proof -
      from all that obtain m0 where "resolved_target st r \<noteq> None"
        by (auto simp: none_iff)
      then obtain m where m: "resolved_target st r = Some m" by auto
      then have "m \<in> set (entityMetadatas st) \<and> is_relation_target st (rm_type (rels st r)) m"
        by (auto simp: resolved_target_def find_Some_iff)
      with m each that show ?thesis by auto
    qed
    with all ok show ?thesis by auto
  next
    case (Some a)
    then have a: "a \<in> set (entityMetadatas st)" and bad: "unresolved_relation st a \<noteq> None"
      by (auto simp: find_Some_iff)
    then obtain r where r: "unresolved_relation st a = Some r" by auto
    then have rin: "r \<in> set (relations (ents st a))" and rbad: "resolved_target st r = None"
      by (auto simp: unresolved_relation_def find_Some_iff)
    have not_all: "\<not> ?all"
      using a rin rbad by (auto simp: none_iff)
    from Some r inverse_pass[where st = st and as = "entityMetadatas st" and env = env]
    have err: "build_inverse_properties env st
               = Inl (TypeORMError
                        (not_found_message (name (ents st a) @ ''#'' @ propertyPath (rels st r))))"
      by (simp add: build_inverse_properties_def)
    then have "build env allTables
               = Inl (TypeORMError
                        (not_found_message (name (ents st a) @ ''#'' @ propertyPath (rels st r))))"
      using assms
      by (simp add: build_def build_to_foreign_keys_def build_to_inheritance_keys_def
          build_to_closure_junctions_def build_to_relations_def build_to_inverse_properties_def)
    with not_all a rin rbad err show ?thesis
      by (auto simp: none_iff)
  qed
  show ?thesis using spelled branch by blast
qed

theorem inverse_side_resolution_witness:
  "build tag_env tag_tables
   = Inl (TypeORMError
            (''Entity metadata for Tag#owner was not found. Check if you specified a correct ''
             @ ''entity object and if it'' @ [CHR 0x27] @ ''s connected in the connection options.''))"
proof -
  have "case build_to_members tag_env tag_tables of Inl e \<Rightarrow> False | Inr st \<Rightarrow> True"
    by (simp add: pass_defs store_defs class_defs example_defs Let_def)
  then obtain st where st: "build_to_members tag_env tag_tables = Inr st"
    by (cases "build_to_members tag_env tag_tables") auto
  have direct: "build tag_env tag_tables
   = Inl (TypeORMError
            (''Entity metadata for Tag#owner was not found. Check if you specified a correct ''
             @ ''entity object and if it'' @ [CHR 0x27] @ ''s connected in the connection options.''))"
    by (simp add: pass_defs store_defs class_defs example_defs Let_def not_found_message_def)
  from inverse_side_resolution[OF st] direct show ?thesis
    by simp
qed

subsection \<open>The index on the discriminator column\<close>

text \<open>
  Claim C5, at an input where the code does not do what the claim says.  \<^verbatim>\<open>build\<close> is run
  on the one entity \<^verbatim>\<open>Content\<close> of \<open>content_env\<close>: it has single table inheritance
  with a discriminator column, an embedded and a generated column, and no index is
  declared by the user.  The build succeeds and returns the entity, and its \<^verbatim>\<open>indices\<close>
  are empty: the index that \<^verbatim>\<open>createKeysForTableInheritance\<close> pushed to \<^verbatim>\<open>indices\<close>
  is gone, because the loop over the generated columns at the end of \<^verbatim>\<open>build\<close> runs
  \<^verbatim>\<open>computeEntityMetadataStep2\<close> again, which makes \<^verbatim>\<open>indices\<close> anew from
  \<^verbatim>\<open>ownIndices\<close> and the indices of the embeddeds.
\<close>

theorem discriminator_index_lost:
  "(case build content_env content_tables of
      Inl e \<Rightarrow> False
    | Inr (result, st) \<Rightarrow>
        result = [0]
      \<and> inheritancePattern (ents st 0) = Some ''STI''
      \<and> discriminatorColumn (ents st 0) \<noteq> None
      \<and> embeddeds (ents st 0) \<noteq> []
      \<and> arrays st (indices (ents st 0)) = [])"
  by (simp add: pass_defs store_defs class_defs example_defs Let_def)

text \<open>
  The same entity without the embedded keeps the index: with no embedded, \<^verbatim>\<open>indices\<close>
  and \<^verbatim>\<open>ownIndices\<close> are one array, and the index is in it when step 2 runs again.
\<close>

lemma discriminator_index_kept_without_embedded:
  "(case build (content_env\<lparr>filterEmbeddeds := (\<lambda>ts. [])\<rparr>) content_tables of
      Inl e \<Rightarrow> False
    | Inr (result, st) \<Rightarrow>
        result = [0]
      \<and> discriminatorColumn (ents st 0) = Some (Suc 0)
      \<and> arrays st (indices (ents st 0))
        = [\<lparr>givenColumnNames = NoNames, ix_columns = [Suc 0], isUnique = False\<rparr>])"
  by (simp add: pass_defs store_defs class_defs example_defs Let_def)

subsection \<open>Foreign keys that are declared\<close>























end
